theory Spec2Isabelle
  imports Complex_Main "HOL-Library.Sublist" "HOL-Library.Word" "HOL-Library.Product_Lexorder"
begin

unbundle bit_operations_syntax

section \<open>Data model\<close>

text \<open>
  The components of a vector are real numbers, and sums, products and square roots of them
  are computed exactly (IEEE rounding is not modelled). A number that the program computes
  by a division is a \<open>js_number\<close>, since a JavaScript division by zero does not fail: it
  gives \<^verbatim>\<open>NaN\<close> or an infinity. A string whose white space matters is a list of UTF-16 code
  units, which is what \<^verbatim>\<open>length\<close> and \<^verbatim>\<open>trim\<close> work on; identifiers and labels are
  \<^typ>\<open>string\<close>s. A value that may be \<^verbatim>\<open>null\<close>/\<^verbatim>\<open>undefined\<close> is an \<^typ>\<open>'a option\<close>. A
  thrown \<^verbatim>\<open>Error\<close> is a value of type \<open>error\<close>, and a function that can throw returns
  \<open>error + 'a\<close>.
\<close>

datatype js_number = Num real | NaN | PosInfinity | NegInfinity

text \<open>The division \<^verbatim>\<open>x / y\<close> of two finite numbers.\<close>

definition js_divide :: "real \<Rightarrow> real \<Rightarrow> js_number" where
  "js_divide x y =
     (if y \<noteq> 0 then Num (x / y)
      else if x = 0 then NaN
      else if 0 < x then PosInfinity
      else NegInfinity)"



text \<open>A JavaScript string as its UTF-16 code units, and an ASCII text as such a string.\<close>

type_synonym js_string = "16 word list"

definition js_string_of :: "string \<Rightarrow> js_string" where
  "js_string_of s = map of_char s"

datatype error =
    Error string        \<comment> \<open>\<^verbatim>\<open>new Error(message)\<close>\<close>
  | ApiError nat string \<comment> \<open>the \<^verbatim>\<open>Error\<close> built from an HTTP status and the remote message\<close>
  | SyntaxError         \<comment> \<open>\<^verbatim>\<open>JSON.parse\<close> or \<^verbatim>\<open>response.json()\<close> on text that is not JSON\<close>
  | TypeError           \<comment> \<open>a property read on \<^verbatim>\<open>undefined\<close>\<close>
  | FetchFailed         \<comment> \<open>a rejected \<^verbatim>\<open>fetch\<close>\<close>

text \<open>The \<^verbatim>\<open>metadata\<close> object of a memory, as \<^verbatim>\<open>createMemory\<close> builds it.\<close>

record metadata =
  role :: string
  chat_id :: "string option"
  importance :: real

text \<open>
  A stored memory (lib/storage.js). The \<^verbatim>\<open>id\<close> field is called \<open>mem_id\<close> here, since
  \<open>id\<close> is the identity function of HOL. \<open>embedding\<close> is optional because the
  retrieval code guards against a missing one.
\<close>

record memory =
  mem_id :: string
  timestamp :: string
  original_message :: js_string
  summary :: js_string
  embedding :: "real list option"
  metadata :: metadata

text \<open>One element of the result of \<^verbatim>\<open>findTopKSimilar\<close>: \<^verbatim>\<open>{ memory, similarity }\<close>.\<close>

record scored =
  memory :: memory
  similarity :: js_number

section \<open>Vector similarity (lib/similarity.js)\<close>

text \<open>
  The body of the \<^verbatim>\<open>for\<close> loop of \<^verbatim>\<open>cosineSimilarity\<close>: it walks both vectors with one
  index and updates \<^verbatim>\<open>dotProduct\<close>, \<^verbatim>\<open>normA\<close> and \<^verbatim>\<open>normB\<close>. It is only entered with
  vectors of equal length.
\<close>

fun cosine_loop :: "real list \<Rightarrow> real list \<Rightarrow> real \<times> real \<times> real \<Rightarrow> real \<times> real \<times> real" where
  "cosine_loop (a # as) (b # bs) (dotProduct, normA, normB) =
     cosine_loop as bs (dotProduct + a * b, normA + a * a, normB + b * b)"
| "cosine_loop _ _ acc = acc"

text \<open>
  The divisor \<^verbatim>\<open>normA * normB\<close> of the final division, for two vectors that passed
  the first guard.
\<close>

definition cosine_divisor :: "real list \<Rightarrow> real list \<Rightarrow> real" where
  "cosine_divisor a b =
     (case cosine_loop a b (0, 0, 0) of (dotProduct, normA, normB) \<Rightarrow> sqrt normA * sqrt normB)"

text \<open>The value of the last line, \<^verbatim>\<open>dotProduct / (normA * normB)\<close>, were it reached.\<close>

definition cosine_quotient :: "real list \<Rightarrow> real list \<Rightarrow> js_number" where
  "cosine_quotient a b =
     (case cosine_loop a b (0, 0, 0) of
        (dotProduct, normA, normB) \<Rightarrow> js_divide dotProduct (sqrt normA * sqrt normB))"

text \<open>
  \<^verbatim>\<open>cosineSimilarity\<close>. The last line is a JavaScript division, so without the guard
  before it a zero norm would show as \<^verbatim>\<open>NaN\<close> or an infinity in the result.
\<close>

definition cosineSimilarity :: "real list option \<Rightarrow> real list option \<Rightarrow> js_number" where
  "cosineSimilarity vecA vecB =
     (case vecA of
        None \<Rightarrow> Num 0
      | Some a \<Rightarrow>
          (case vecB of
             None \<Rightarrow> Num 0
           | Some b \<Rightarrow>
               if length a \<noteq> length b then Num 0
               else
                 (case cosine_loop a b (0, 0, 0) of
                    (dotProduct, normA, normB) \<Rightarrow>
                      if sqrt normA = 0 \<or> sqrt normB = 0 then Num 0
                      else js_divide dotProduct (sqrt normA * sqrt normB))))"

text \<open>
  \<^verbatim>\<open>Array.prototype.slice(0, end)\<close> for an integer \<^verbatim>\<open>end\<close>: a negative \<^verbatim>\<open>end\<close> counts
  from the end of the array.
\<close>

definition js_slice0 :: "'a list \<Rightarrow> int \<Rightarrow> 'a list" where
  "js_slice0 xs e = (if e < 0 then take (nat (int (length xs) + e)) xs else take (nat e) xs)"



text \<open>A memory that carries nothing but an id and an embedding, for concrete examples.\<close>

definition example_memory :: "string \<Rightarrow> real list option \<Rightarrow> memory" where
  "example_memory i e =
     \<lparr>mem_id = i, timestamp = [], original_message = [], summary = [], embedding = e,
      metadata = \<lparr>role = ''user'', chat_id = None, importance = 1 / 2\<rparr>\<rparr>"


section \<open>Memory storage (lib/storage.js)\<close>

text \<open>
  The per-character object that \<^verbatim>\<open>loadMemories\<close> creates and \<^verbatim>\<open>saveMemories\<close> writes.
\<close>

record store_data =
  character_id :: string
  character_name :: string
  created_at :: string
  updated_at :: string
  memories :: "memory list"

text \<open>
  A \<^verbatim>\<open>MemoryStorage\<close> instance together with the browser's \<^verbatim>\<open>localStorage\<close>, which is
  where \<^verbatim>\<open>saveMemories\<close> persists. \<open>cache\<close> is the \<^verbatim>\<open>Map\<close> of the instance. A value of
  \<open>localStorage\<close> is the object whose JSON text was stored under the key.
\<close>

record storage =
  dataPath :: string
  cache :: "string \<rightharpoonup> store_data"
  localStorage :: "string \<rightharpoonup> store_data"

text \<open>
  What one storage call reads from its environment: the clock
  (\<^verbatim>\<open>new Date().toISOString()\<close>), the outcome of \<^verbatim>\<open>fetch(filePath)\<close> followed by
  \<^verbatim>\<open>response.json()\<close> (\<open>None\<close> when the fetch is rejected, the response is not ok or the
  body is not JSON), whether \<^verbatim>\<open>localStorage.setItem\<close> succeeds (it throws when the quota is
  exceeded or storage is disabled), and the successive values of \<^verbatim>\<open>Math.random() * 16 | 0\<close>,
  each a 4-bit number.
\<close>

record io =
  now :: string
  fetch_file :: "string \<Rightarrow> store_data option"
  setItem_ok :: bool
  random :: "nat \<Rightarrow> 4 word"

text \<open>\<^verbatim>\<open>v.toString(16)\<close> for a 4-bit value.\<close>

definition hex_digit :: "4 word \<Rightarrow> char" where
  "hex_digit v = ''0123456789abcdef'' ! unat v"

text \<open>
  The \<^verbatim>\<open>replace(/[xy]/g, ...)\<close> of \<^verbatim>\<open>generateUUID\<close>: the callback runs once per \<^verbatim>\<open>x\<close> or
  \<^verbatim>\<open>y\<close> of the template, from left to right, and draws one random number each time;
  \<open>i\<close> counts the draws made so far.
\<close>

fun uuid_fill :: "(nat \<Rightarrow> 4 word) \<Rightarrow> nat \<Rightarrow> string \<Rightarrow> string" where
  "uuid_fill rnd i [] = []"
| "uuid_fill rnd i (c # cs) =
     (if c = CHR ''x'' then hex_digit (rnd i) # uuid_fill rnd (Suc i) cs
      else if c = CHR ''y'' then hex_digit ((rnd i AND 3) OR 8) # uuid_fill rnd (Suc i) cs
      else c # uuid_fill rnd i cs)"

definition generateUUID :: "(nat \<Rightarrow> 4 word) \<Rightarrow> string" where
  "generateUUID rnd = uuid_fill rnd 0 ''xxxxxxxx-xxxx-4xxx-yxxx-xxxxxxxxxxxx''"

text \<open>The character class \<^verbatim>\<open>[a-zA-Z0-9_-]\<close> of \<^verbatim>\<open>getFilePath\<close>.\<close>

definition safe_char :: "char \<Rightarrow> bool" where
  "safe_char c =
     (c \<in> set ''abcdefghijklmnopqrstuvwxyzABCDEFGHIJKLMNOPQRSTUVWXYZ0123456789_-'')"

definition getFilePath :: "storage \<Rightarrow> string \<Rightarrow> string" where
  "getFilePath st characterId =
     dataPath st @ ''/'' @ map (\<lambda>c. if safe_char c then c else CHR ''_'') characterId @ ''.json''"

text \<open>
  \<^verbatim>\<open>loadMemories\<close> returns the cached object when there is one. Otherwise it caches and
  returns what the file holds, or a new empty store. The caller gets the cached object
  itself, so what a caller then changes in it is a change of the cache entry.
\<close>

definition loadMemories :: "io \<Rightarrow> storage \<Rightarrow> string \<Rightarrow> string \<Rightarrow> store_data \<times> storage" where
  "loadMemories env st characterId characterName =
     (case cache st characterId of
        Some data \<Rightarrow> (data, st)
      | None \<Rightarrow>
          (case fetch_file env (getFilePath st characterId) of
             Some data \<Rightarrow> (data, st\<lparr>cache := (cache st)(characterId \<mapsto> data)\<rparr>)
           | None \<Rightarrow>
               (let newData = \<lparr>character_id = characterId, character_name = characterName,
                                created_at = now env, updated_at = now env, memories = []\<rparr>
                in (newData, st\<lparr>cache := (cache st)(characterId \<mapsto> newData)\<rparr>))))"

text \<open>
  \<^verbatim>\<open>saveMemories\<close> refreshes \<^verbatim>\<open>updated_at\<close>, sets the cache entry, and then tries
  \<^verbatim>\<open>localStorage.setItem\<close>. A failure there is caught: the function returns \<^verbatim>\<open>false\<close> and
  the cache keeps the new data.
\<close>

definition saveMemories :: "io \<Rightarrow> storage \<Rightarrow> string \<Rightarrow> store_data \<Rightarrow> bool \<times> storage" where
  "saveMemories env st characterId data =
     (let data' = data\<lparr>updated_at := now env\<rparr>;
          st' = st\<lparr>cache := (cache st)(characterId \<mapsto> data')\<rparr>
      in if setItem_ok env
         then (True, st'\<lparr>localStorage :=
                           (localStorage st')(''voyageai_memory_'' @ characterId \<mapsto> data')\<rparr>)
         else (False, st'))"

text \<open>
  The argument of \<^verbatim>\<open>addMemory\<close>. \<^verbatim>\<open>createMemory\<close> builds it without \<^verbatim>\<open>id\<close> and
  \<^verbatim>\<open>timestamp\<close>, but any object can be passed, and the spread \<^verbatim>\<open>...memory\<close> comes after
  the generated fields, so an \<^verbatim>\<open>id\<close> or \<^verbatim>\<open>timestamp\<close> of the argument wins.
\<close>

record partial_memory =
  pm_id :: "string option"
  pm_timestamp :: "string option"
  pm_original_message :: js_string
  pm_summary :: js_string
  pm_embedding :: "real list option"
  pm_metadata :: metadata

text \<open>The options object of \<^verbatim>\<open>createMemory\<close>; \<open>None\<close> is an absent key.\<close>

record memory_options =
  opt_role :: "string option"
  opt_chatId :: "string option"
  opt_importance :: "real option"

text \<open>
  \<^verbatim>\<open>createMemory\<close>. The defaults \<^verbatim>\<open>metadata.role || 'unknown'\<close> and
  \<^verbatim>\<open>metadata.importance || 0.5\<close> are overwritten by the spread \<^verbatim>\<open>...metadata\<close> when the
  key is there, so they show only for an absent key.
\<close>

definition createMemory ::
    "js_string \<Rightarrow> js_string \<Rightarrow> real list option \<Rightarrow> memory_options \<Rightarrow> partial_memory" where
  "createMemory originalMessage summ emb opts =
     \<lparr>pm_id = None, pm_timestamp = None, pm_original_message = originalMessage,
      pm_summary = summ, pm_embedding = emb,
      pm_metadata =
        \<lparr>role = (case opt_role opts of Some r \<Rightarrow> r | None \<Rightarrow> ''unknown''),
         chat_id = (case opt_chatId opts of Some c \<Rightarrow> (if c = [] then None else Some c)
                    | None \<Rightarrow> None),
         importance = (case opt_importance opts of Some i \<Rightarrow> i | None \<Rightarrow> 1 / 2)\<rparr>\<rparr>"

text \<open>The object literal \<^verbatim>\<open>{ id: generateUUID(), timestamp: ..., ...memory }\<close>.\<close>

definition newMemory :: "io \<Rightarrow> partial_memory \<Rightarrow> memory" where
  "newMemory env pm =
     \<lparr>mem_id = (case pm_id pm of Some i \<Rightarrow> i | None \<Rightarrow> generateUUID (random env)),
      timestamp = (case pm_timestamp pm of Some t \<Rightarrow> t | None \<Rightarrow> now env),
      original_message = pm_original_message pm,
      summary = pm_summary pm,
      embedding = pm_embedding pm,
      metadata = pm_metadata pm\<rparr>"

text \<open>\<^verbatim>\<open>addMemory\<close>: load, push the new memory, save. The result of the save is not read.\<close>

definition addMemory :: "io \<Rightarrow> storage \<Rightarrow> string \<Rightarrow> partial_memory \<Rightarrow> memory \<times> storage" where
  "addMemory env st characterId pm =
     (case loadMemories env st characterId [] of
        (data, st1) \<Rightarrow>
          (let m = newMemory env pm;
               data' = data\<lparr>memories := memories data @ [m]\<rparr>
           in (m, snd (saveMemories env st1 characterId data'))))"

definition getMemories :: "io \<Rightarrow> storage \<Rightarrow> string \<Rightarrow> memory list \<times> storage" where
  "getMemories env st characterId =
     (case loadMemories env st characterId [] of (data, st1) \<Rightarrow> (memories data, st1))"

text \<open>
  The text that \<^verbatim>\<open>exportMemories\<close> produces and \<^verbatim>\<open>importMemories\<close> reads is represented
  by what \<^verbatim>\<open>JSON.parse\<close> makes of it: text that is not JSON, a JSON value without an
  array-typed \<^verbatim>\<open>memories\<close> field, or an object with one. \<^verbatim>\<open>JSON.stringify\<close> followed by
  \<^verbatim>\<open>JSON.parse\<close> is taken to give back the same store data; the elements of an imported
  \<^verbatim>\<open>memories\<close> array are taken to be memory records.
\<close>

datatype json_text = NotJson | NoMemoriesArray | StoreJson store_data

definition exportMemories :: "io \<Rightarrow> storage \<Rightarrow> string \<Rightarrow> json_text \<times> storage" where
  "exportMemories env st characterId =
     (case loadMemories env st characterId [] of (data, st1) \<Rightarrow> (StoreJson data, st1))"

text \<open>
  \<^verbatim>\<open>importMemories\<close>. An error is thrown before anything is loaded (for the JSON value
  \<^verbatim>\<open>null\<close> it is a \<^verbatim>\<open>TypeError\<close> rather than the format error; both leave the state alone). Otherwise the cached
  object is changed, \<^verbatim>\<open>saveMemories\<close> is called and its result is not read, and the
  function returns \<^verbatim>\<open>importData.memories.length\<close>.
\<close>

definition importMemories ::
    "io \<Rightarrow> storage \<Rightarrow> string \<Rightarrow> json_text \<Rightarrow> bool \<Rightarrow> (error + nat) \<times> storage" where
  "importMemories env st characterId jsonString merge =
     (case jsonString of
        NotJson \<Rightarrow> (Inl SyntaxError, st)
      | NoMemoriesArray \<Rightarrow> (Inl (Error ''Invalid memory file format''), st)
      | StoreJson importData \<Rightarrow>
          (case loadMemories env st characterId [] of
             (currentData, st1) \<Rightarrow>
               (let currentData' =
                      (if merge
                       then currentData\<lparr>memories := memories currentData @
                              filter (\<lambda>m. mem_id m \<notin> set (map mem_id (memories currentData)))
                                (memories importData)\<rparr>
                       else currentData\<lparr>memories := memories importData\<rparr>)
                in (Inr (length (memories importData)),
                    snd (saveMemories env st1 characterId currentData')))))"

text \<open>
  The \<^verbatim>\<open>memories\<close> array that \<^verbatim>\<open>importMemories\<close> leaves in the current store: the two
  branches of its \<^verbatim>\<open>if (merge)\<close>.
\<close>

definition import_result :: "store_data \<Rightarrow> store_data \<Rightarrow> bool \<Rightarrow> memory list" where
  "import_result currentData importData merge =
     (if merge
      then memories currentData @
             filter (\<lambda>m. mem_id m \<notin> set (map mem_id (memories currentData))) (memories importData)
      else memories importData)"

text \<open>Concrete values for examples: an environment, an empty storage and a store.\<close>

definition example_io :: "bool \<Rightarrow> io" where
  "example_io ok = \<lparr>now = ''t1'', fetch_file = (\<lambda>p. None), setItem_ok = ok, random = (\<lambda>i. 0)\<rparr>"

definition example_storage :: "memory list \<Rightarrow> storage" where
  "example_storage ms =
     \<lparr>dataPath = ''ext/data/memories'',
      cache = [''c'' \<mapsto> \<lparr>character_id = ''c'', character_name = [], created_at = ''t0'',
                         updated_at = ''t0'', memories = ms\<rparr>],
      localStorage = Map.empty\<rparr>"

section \<open>Summarization client (lib/summarizer.js) and embedding client (lib/voyageai.js)\<close>

text \<open>
  What the rest of the program can observe of a call: the stage calls of the write path,
  the HTTP requests, and the notifications. \<open>Log\<close> is a line of the debug log.
\<close>

datatype event =
    Log string
  | Summarize              \<comment> \<open>\<^verbatim>\<open>summarizerClient.summarize\<close> is called\<close>
  | SummarizerRequest      \<comment> \<open>the \<^verbatim>\<open>fetch\<close> to the chat-completions endpoint\<close>
  | Embed                  \<comment> \<open>\<^verbatim>\<open>voyageClient.embedDocument\<close> is called\<close>
  | EmbeddingRequest       \<comment> \<open>the \<^verbatim>\<open>fetch\<close> to the embeddings endpoint\<close>
  | Store                  \<comment> \<open>\<^verbatim>\<open>memoryStorage.addMemory\<close> is called\<close>
  | ConsoleError           \<comment> \<open>\<^verbatim>\<open>console.error\<close>\<close>
  | ToastSuccess           \<comment> \<open>\<^verbatim>\<open>toastr.success("Memory stored successfully")\<close>\<close>
  | ToastError error       \<comment> \<open>\<^verbatim>\<open>toastr.error("Failed to process message: ...")\<close>\<close>
  | ToastWarning
  | ToastInfo
  | BatchReport nat nat    \<comment> \<open>\<^verbatim>\<open>toastr.success("Processed p messages (f failed)")\<close>\<close>

text \<open>
  The code units that \<^verbatim>\<open>String.prototype.trim\<close> removes: the white space of ECMAScript
  (tab, vertical tab, form feed, space, no-break space, U+FEFF and the other space
  separators of Unicode, U+1680, U+2000 to U+200A, U+202F, U+205F, U+3000) and its line
  terminators (line feed, carriage return, U+2028, U+2029). All of them are single code
  units.
\<close>

definition js_space :: "16 word \<Rightarrow> bool" where
  "js_space c =
     (c \<in> set [0x9, 0xA, 0xB, 0xC, 0xD, 0x20, 0xA0, 0x1680, 0x2028, 0x2029, 0x202F, 0x205F,
                0x3000, 0xFEFF] \<or>
      (0x2000 \<le> c \<and> c \<le> 0x200A))"

definition js_trim :: "js_string \<Rightarrow> js_string" where
  "js_trim s = rev (dropWhile js_space (rev (dropWhile js_space s)))"

text \<open>The fields of a \<^verbatim>\<open>SummarizerClient\<close> that decide what \<^verbatim>\<open>summarize\<close> does.\<close>

record summarizer_client =
  apiUrl :: string
  apiKey :: string

text \<open>
  What the summarization service does with one request: the \<^verbatim>\<open>fetch\<close> is rejected, the
  response is not ok (status and message), the body of an ok response is not JSON, or it
  is JSON and \<^verbatim>\<open>data.choices?.[0]?.message?.content\<close> is the given value (\<open>None\<close> when that
  path is missing). The content of the request does not decide the control flow, so the
  prompt assembly (\<^verbatim>\<open>processSystemPrompt\<close>, \<^verbatim>\<open>formatUserContent\<close>) is not modelled.
\<close>

datatype summarizer_reply =
    SFetchRejected
  | SHttpError nat string
  | SBodyNotJson
  | SCompletion "js_string option"

text \<open>
  \<^verbatim>\<open>summarize(message, context)\<close>, with the events it causes. The \<^verbatim>\<open>catch\<close> around the
  request logs the error and throws it again.
\<close>

definition summarize ::
    "summarizer_client \<Rightarrow> js_string option \<Rightarrow> summarizer_reply \<Rightarrow>
     (error + js_string) \<times> event list" where
  "summarize client message reply =
     (if apiUrl client = [] \<or> apiKey client = []
      then (Inl (Error ''Summarization API URL and key are required''), [])
      else if (case message of None \<Rightarrow> True | Some m \<Rightarrow> m = [] \<or> length (js_trim m) = 0)
      then (Inr [], [])
      else
        (case reply of
           SFetchRejected \<Rightarrow> (Inl FetchFailed, [SummarizerRequest, ConsoleError])
         | SHttpError status msg \<Rightarrow> (Inl (ApiError status msg), [SummarizerRequest, ConsoleError])
         | SBodyNotJson \<Rightarrow> (Inl SyntaxError, [SummarizerRequest, ConsoleError])
         | SCompletion content \<Rightarrow>
             (case content of
                None \<Rightarrow> (Inl (Error ''No summary generated''), [SummarizerRequest, ConsoleError])
              | Some c \<Rightarrow>
                  if js_trim c = []
                  then (Inl (Error ''No summary generated''), [SummarizerRequest, ConsoleError])
                  else (Inr (js_trim c), [SummarizerRequest]))))"

text \<open>The field of a \<^verbatim>\<open>VoyageAIClient\<close> that decides what \<^verbatim>\<open>embed\<close> does.\<close>

record voyage_client =
  voyage_apiKey :: string

text \<open>
  What the embedding service does with one request. \<open>VData\<close> holds \<^verbatim>\<open>data.data\<close>, a list
  of \<^verbatim>\<open>{ index, embedding }\<close>; \<open>VNoData\<close> is an ok response without that array.
\<close>

datatype voyage_reply =
    VFetchRejected
  | VHttpError nat string
  | VBodyNotJson
  | VNoData
  | VData "(int \<times> real list) list"

definition embed ::
    "voyage_client \<Rightarrow> js_string list \<Rightarrow> voyage_reply \<Rightarrow>
     (error + real list list) \<times> event list" where
  "embed client texts reply =
     (if voyage_apiKey client = []
      then (Inl (Error ''VoyageAI API key is not configured''), [])
      else if length texts = 0 then (Inr [], [])
      else
        (case reply of
           VFetchRejected \<Rightarrow> (Inl FetchFailed, [EmbeddingRequest, ConsoleError])
         | VHttpError status msg \<Rightarrow> (Inl (ApiError status msg), [EmbeddingRequest, ConsoleError])
         | VBodyNotJson \<Rightarrow> (Inl SyntaxError, [EmbeddingRequest, ConsoleError])
         | VNoData \<Rightarrow> (Inl TypeError, [EmbeddingRequest, ConsoleError])
         | VData items \<Rightarrow> (Inr (map snd (sort_key fst items)), [EmbeddingRequest])))"

text \<open>\<^verbatim>\<open>embedDocument(text)\<close>: \<^verbatim>\<open>result.embeddings[0] || []\<close>.\<close>

definition embedDocument ::
    "voyage_client \<Rightarrow> js_string \<Rightarrow> voyage_reply \<Rightarrow> (error + real list) \<times> event list" where
  "embedDocument client text reply =
     (case embed client [text] reply of
        (Inl e, evs) \<Rightarrow> (Inl e, evs)
      | (Inr embeddings, evs) \<Rightarrow> (Inr (case embeddings of [] \<Rightarrow> [] | e # _ \<Rightarrow> e), evs))"

section \<open>Write path (index.js)\<close>

record settings =
  include_history :: bool
  history_count :: int
  debug_mode :: bool

record chat_message =
  mes :: "js_string option"
  is_user :: bool
  is_system :: bool

text \<open>The part of SillyTavern's context object that the write path reads.\<close>

record st_context =
  characterId :: "string option"
  chatId :: "string option"
  chat :: "chat_message list"

text \<open>
  The global variables of index.js: the in-flight flag, the storage, the two clients, and
  the extension settings.
\<close>

record app =
  isProcessing :: bool
  memoryStorage :: storage
  summarizerClient :: summarizer_client
  voyageClient :: voyage_client
  settings :: settings

text \<open>
  What one run of the pipeline meets in the world: the storage environment, the numeric
  value \<^verbatim>\<open>new Date(timestamp)\<close> gives a timestamp, and what the two services reply.
\<close>

record world =
  w_io :: io
  date_ms :: "string \<Rightarrow> int"
  summarizer_reply :: summarizer_reply
  voyage_reply :: voyage_reply

text \<open>\<^verbatim>\<open>log(message)\<close> prints only in debug mode.\<close>

definition debug_log :: "app \<Rightarrow> string \<Rightarrow> event list" where
  "debug_log a message = (if debug_mode (settings a) then [Log message] else [])"

text \<open>
  \<^verbatim>\<open>getRecentSummaries\<close>: the summaries of the \<^verbatim>\<open>count\<close> newest memories, oldest first. It
  goes through \<^verbatim>\<open>getMemories\<close>, so it fills the cache on a miss.
\<close>

definition getRecentSummaries ::
    "world \<Rightarrow> storage \<Rightarrow> string \<Rightarrow> int \<Rightarrow> js_string list \<times> storage" where
  "getRecentSummaries w st cid count =
     (case getMemories (w_io w) st cid of
        (ms, st1) \<Rightarrow>
          if length ms = 0 then ([], st1)
          else (map summary
                  (rev (js_slice0 (sort_key (\<lambda>m. - date_ms w (timestamp m)) ms) count)), st1))"

text \<open>The second early return: \<^verbatim>\<open>!messageText || messageText.trim().length < 20\<close>.\<close>

definition too_short :: "js_string option \<Rightarrow> bool" where
  "too_short messageText =
     (case messageText of None \<Rightarrow> True | Some t \<Rightarrow> t = [] \<or> length (js_trim t) < 20)"

text \<open>
  The \<^verbatim>\<open>try\<close> block of \<^verbatim>\<open>processAndStoreMessage\<close>. It yields the error that left the block,
  if any, the storage as the block left it, and the events in their order. The history
  gathered at the start only goes into the prompt; the raw chat history is a pure function
  of the context and is left out. The history is gathered for a truthy character id only,
  and an empty string is falsy. With no character id, \<^verbatim>\<open>addMemory\<close> fails on
  \<^verbatim>\<open>characterId.replace\<close>. The status display refreshed after a store reads the entry
  that \<^verbatim>\<open>addMemory\<close> has just cached and changes nothing.
\<close>

definition processAndStoreMessage_try ::
    "world \<Rightarrow> app \<Rightarrow> js_string \<Rightarrow> string \<Rightarrow> st_context \<Rightarrow>
     (error + unit) \<times> storage \<times> event list" where
  "processAndStoreMessage_try w a messageText rl ctx =
     (let (summaryHistory, st1) =
            (case characterId ctx of
               Some cid \<Rightarrow>
                 if include_history (settings a) \<and> cid \<noteq> []
                 then getRecentSummaries w (memoryStorage a) cid
                        (if history_count (settings a) = 0 then 3 else history_count (settings a))
                 else ([], memoryStorage a)
             | None \<Rightarrow> ([], memoryStorage a))
      in case summarize (summarizerClient a) (Some messageText) (summarizer_reply w) of
           (Inl e, evs1) \<Rightarrow> (Inl e, st1, Summarize # evs1)
         | (Inr summ, evs1) \<Rightarrow>
             if summ = [] then (Inl (Error ''Failed to generate summary''), st1, Summarize # evs1)
             else
               (case embedDocument (voyageClient a) summ (voyage_reply w) of
                  (Inl e, evs2) \<Rightarrow> (Inl e, st1, Summarize # evs1 @ Embed # evs2)
                | (Inr emb, evs2) \<Rightarrow>
                    if length emb = 0
                    then (Inl (Error ''Failed to generate embedding''), st1,
                          Summarize # evs1 @ Embed # evs2)
                    else
                      (case characterId ctx of
                         None \<Rightarrow> (Inl TypeError, st1, Summarize # evs1 @ Embed # evs2 @ [Store])
                       | Some cid \<Rightarrow>
                           (Inr (),
                            snd (addMemory (w_io w) st1 cid
                                   (createMemory messageText summ (Some emb)
                                      \<lparr>opt_role = Some rl, opt_chatId = chatId ctx,
                                       opt_importance = None\<rparr>)),
                            Summarize # evs1 @ Embed # evs2 @ [Store, ToastSuccess]))))"

text \<open>
  \<^verbatim>\<open>processAndStoreMessage\<close> up to its first \<^verbatim>\<open>await\<close>: the two early returns, and then
  \<^verbatim>\<open>isProcessing = true\<close>. This part runs without interruption. The result says whether
  the call went past the guard.
\<close>

definition processAndStoreMessage_enter ::
    "app \<Rightarrow> js_string option \<Rightarrow> bool \<times> app \<times> event list" where
  "processAndStoreMessage_enter a messageText =
     (if isProcessing a then (False, a, debug_log a ''Already processing, skipping message'')
      else if too_short messageText then (False, a, debug_log a ''Message too short, skipping'')
      else (True, a\<lparr>isProcessing := True\<rparr>, []))"

text \<open>
  The rest of \<^verbatim>\<open>processAndStoreMessage\<close>, on the global variables as it finds them: the
  \<^verbatim>\<open>try\<close> block runs; \<^verbatim>\<open>catch\<close> logs the error and shows one error toast; \<^verbatim>\<open>finally\<close>
  clears the flag.
\<close>

definition processAndStoreMessage_run ::
    "world \<Rightarrow> app \<Rightarrow> js_string \<Rightarrow> string \<Rightarrow> st_context \<Rightarrow> app \<times> event list" where
  "processAndStoreMessage_run w a messageText rl ctx =
     (case processAndStoreMessage_try w a messageText rl ctx of
        (Inl e, st1, evs) \<Rightarrow>
          (a\<lparr>isProcessing := False, memoryStorage := st1\<rparr>, evs @ [ConsoleError, ToastError e])
      | (Inr u, st1, evs) \<Rightarrow>
          (a\<lparr>isProcessing := False, memoryStorage := st1\<rparr>, evs))"

text \<open>
  \<^verbatim>\<open>processAndStoreMessage\<close> when nothing else runs in between. The function itself never
  throws: it returns the new state and the events.
\<close>

definition processAndStoreMessage ::
    "world \<Rightarrow> app \<Rightarrow> js_string option \<Rightarrow> string \<Rightarrow> st_context \<Rightarrow> app \<times> event list" where
  "processAndStoreMessage w a messageText rl ctx =
     (case processAndStoreMessage_enter a messageText of
        (entered, a1, evs1) \<Rightarrow>
          if entered
          then (case processAndStoreMessage_run w a1
                       (case messageText of Some t \<Rightarrow> t | None \<Rightarrow> []) rl ctx of
                  (a2, evs2) \<Rightarrow> (a2, evs1 @ evs2))
          else (a1, evs1))"

text \<open>
  One turn of the loop of \<^verbatim>\<open>storeCurrentChat\<close>: summarize, embed, store, with no check of
  the summary or the embedding; an error is logged and counted. The result says whether
  the message was processed.
\<close>

definition store_chat_item ::
    "world \<Rightarrow> app \<Rightarrow> storage \<Rightarrow> string \<Rightarrow> st_context \<Rightarrow> chat_message \<Rightarrow> bool \<times> storage \<times> event list" where
  "store_chat_item w a st cid ctx message =
     (case summarize (summarizerClient a) (mes message) (summarizer_reply w) of
        (Inl e, evs1) \<Rightarrow> (False, st, Summarize # evs1 @ [ConsoleError])
      | (Inr summ, evs1) \<Rightarrow>
          (case embedDocument (voyageClient a) summ (voyage_reply w) of
             (Inl e, evs2) \<Rightarrow> (False, st, Summarize # evs1 @ Embed # evs2 @ [ConsoleError])
           | (Inr emb, evs2) \<Rightarrow>
               (True,
                snd (addMemory (w_io w) st cid
                       (createMemory (case mes message of Some t \<Rightarrow> t | None \<Rightarrow> []) summ (Some emb)
                          \<lparr>opt_role = Some (if is_user message then ''user'' else ''assistant''),
                           opt_chatId = chatId ctx, opt_importance = None\<rparr>)),
                Summarize # evs1 @ Embed # evs2 @ [Store])))"

text \<open>
  The \<^verbatim>\<open>for\<close> loop of \<^verbatim>\<open>storeCurrentChat\<close>; the \<open>i\<close>-th message meets the world \<open>ws i\<close>.
  The accumulator holds \<^verbatim>\<open>processed\<close>, \<^verbatim>\<open>failed\<close>, the storage and the events so far.
\<close>

fun store_chat_loop ::
    "(nat \<Rightarrow> world) \<Rightarrow> app \<Rightarrow> string \<Rightarrow> st_context \<Rightarrow> nat \<Rightarrow> chat_message list \<Rightarrow>
     nat \<times> nat \<times> storage \<times> event list \<Rightarrow> nat \<times> nat \<times> storage \<times> event list" where
  "store_chat_loop ws a cid ctx i [] acc = acc"
| "store_chat_loop ws a cid ctx i (message # rest) (processed, failed, st, evs) =
     (case store_chat_item (ws i) a st cid ctx message of
        (ok, st1, evs1) \<Rightarrow>
          store_chat_loop ws a cid ctx (Suc i) rest
            (if ok then (processed + 1, failed, st1, evs @ evs1)
             else (processed, failed + 1, st1, evs @ evs1)))"

text \<open>
  \<^verbatim>\<open>storeCurrentChat\<close>, with the user's answer to the \<^verbatim>\<open>confirm\<close> dialog. It neither reads
  nor writes \<^verbatim>\<open>isProcessing\<close>.
\<close>

definition storeCurrentChat ::
    "(nat \<Rightarrow> world) \<Rightarrow> app \<Rightarrow> st_context \<Rightarrow> bool \<Rightarrow> app \<times> event list" where
  "storeCurrentChat ws a ctx confirmed =
     (case characterId ctx of
        None \<Rightarrow> (a, [ToastWarning])
      | Some cid \<Rightarrow>
          if cid = [] then (a, [ToastWarning])
          else
          (let messages =
                 filter (\<lambda>m. \<not> is_system m \<and>
                              (case mes m of None \<Rightarrow> False | Some t \<Rightarrow> t \<noteq> [] \<and> 20 \<le> length t))
                   (chat ctx)
           in if length messages = 0 then (a, [ToastInfo])
              else if \<not> confirmed then (a, [])
              else
                (case store_chat_loop ws a cid ctx 0 messages (0, 0, memoryStorage a, []) of
                   (processed, failed, st1, evs) \<Rightarrow>
                     (a\<lparr>memoryStorage := st1\<rparr>, evs @ [BatchReport processed failed]))))"

text \<open>
  The write-path executions in progress. JavaScript runs one piece of code at a time and
  lets another one in only at an \<^verbatim>\<open>await\<close>. So an invocation of \<^verbatim>\<open>processAndStoreMessage\<close>
  runs \<^const>\<open>processAndStoreMessage_enter\<close> on the global variables at once, and, when it
  went past the guard, the rest of it (\<^const>\<open>processAndStoreMessage_run\<close>) in a later step,
  on the global variables as they are then. A \<^verbatim>\<open>storeCurrentChat\<close> likewise starts in one
  step and does its work in a later one. Other invocations may come in between. \<open>singles\<close>
  and \<open>batches\<close> are the executions that have started and not finished, with the arguments
  they were called with.
\<close>

record call =
  call_world :: world
  call_text :: js_string
  call_role :: string
  call_context :: st_context

record batch_call =
  batch_worlds :: "nat \<Rightarrow> world"
  batch_context :: st_context
  batch_confirmed :: bool

record process =
  globals :: app
  singles :: "call list"
  batches :: "batch_call list"
  trace :: "event list"

datatype action =
    InvokeSingle world "js_string option" string st_context
  | CompleteSingle
  | InvokeBatch "nat \<Rightarrow> world" st_context bool
  | CompleteBatch

fun step :: "process \<Rightarrow> action \<Rightarrow> process" where
  "step p (InvokeSingle w messageText rl ctx) =
     (case processAndStoreMessage_enter (globals p) messageText of
        (entered, a, evs) \<Rightarrow>
          if entered
          then p\<lparr>globals := a,
                 singles := singles p @
                   [\<lparr>call_world = w,
                     call_text = (case messageText of Some t \<Rightarrow> t | None \<Rightarrow> []),
                     call_role = rl, call_context = ctx\<rparr>],
                 trace := trace p @ evs\<rparr>
          else p\<lparr>globals := a, trace := trace p @ evs\<rparr>)"
| "step p CompleteSingle =
     (case singles p of
        [] \<Rightarrow> p
      | c # cs \<Rightarrow>
          (case processAndStoreMessage_run (call_world c) (globals p) (call_text c) (call_role c)
                  (call_context c) of
             (a, evs) \<Rightarrow> p\<lparr>globals := a, singles := cs, trace := trace p @ evs\<rparr>))"
| "step p (InvokeBatch ws ctx confirmed) =
     p\<lparr>batches := batches p @
          [\<lparr>batch_worlds = ws, batch_context = ctx, batch_confirmed = confirmed\<rparr>]\<rparr>"
| "step p CompleteBatch =
     (case batches p of
        [] \<Rightarrow> p
      | b # bs \<Rightarrow>
          (case storeCurrentChat (batch_worlds b) (globals p) (batch_context b)
                  (batch_confirmed b) of
             (a, evs) \<Rightarrow> p\<lparr>globals := a, batches := bs, trace := trace p @ evs\<rparr>))"

text \<open>The process after a sequence of actions, started with the global variables \<open>a\<close>.\<close>

definition execute :: "app \<Rightarrow> action list \<Rightarrow> process" where
  "execute a acts = foldl step \<lparr>globals = a, singles = [], batches = [], trace = []\<rparr> acts"

text \<open>
  At most one \<^verbatim>\<open>processAndStoreMessage\<close> is in progress, and the flag is set exactly then.
\<close>

definition single_flight :: "process \<Rightarrow> bool" where
  "single_flight p =
     (length (singles p) \<le> 1 \<and> (isProcessing (globals p) \<longleftrightarrow> length (singles p) = 1))"

text \<open>The stage calls among the events, and the error toasts among them.\<close>

definition stage_calls :: "event list \<Rightarrow> event list" where
  "stage_calls evs = filter (\<lambda>e. e = Summarize \<or> e = Embed \<or> e = Store) evs"

definition error_toasts :: "event list \<Rightarrow> event list" where
  "error_toasts evs = filter (\<lambda>e. case e of ToastError x \<Rightarrow> True | _ \<Rightarrow> False) evs"

definition requests :: "event list \<Rightarrow> event list" where
  "requests evs = filter (\<lambda>e. e = SummarizerRequest \<or> e = EmbeddingRequest) evs"

text \<open>
  The storage as the history gathering at the start of the \<^verbatim>\<open>try\<close> block leaves it.
\<close>

definition history_storage :: "world \<Rightarrow> app \<Rightarrow> st_context \<Rightarrow> storage" where
  "history_storage w a ctx =
     (case characterId ctx of
        Some cid \<Rightarrow>
          if include_history (settings a) \<and> cid \<noteq> []
          then snd (getRecentSummaries w (memoryStorage a) cid
                      (if history_count (settings a) = 0 then 3 else history_count (settings a)))
          else memoryStorage a
      | None \<Rightarrow> memoryStorage a)"

text \<open>
  No record was added between two storages: nothing new was persisted, and every entity
  lists the memories it listed before.
\<close>

definition no_record_added :: "io \<Rightarrow> storage \<Rightarrow> storage \<Rightarrow> bool" where
  "no_record_added env st st' =
     (localStorage st' = localStorage st \<and>
      (\<forall>c. fst (getMemories env st' c) = fst (getMemories env st c)))"

text \<open>
  What a failed run of the write path looks like from outside, given the state before and
  the result of the call: no record was added, exactly one error toast was shown and no
  success toast, and the in-flight flag is clear again.
\<close>

definition aborted_cleanly :: "io \<Rightarrow> app \<Rightarrow> app \<times> event list \<Rightarrow> bool" where
  "aborted_cleanly env a R =
     (no_record_added env (memoryStorage a) (memoryStorage (fst R)) \<and>
      length (error_toasts (snd R)) = 1 \<and>
      ToastSuccess \<notin> set (snd R) \<and>
      \<not> isProcessing (fst R))"

text \<open>Concrete values for examples.\<close>

definition example_world :: "summarizer_reply \<Rightarrow> voyage_reply \<Rightarrow> world" where
  "example_world sr vr =
     \<lparr>w_io = example_io True, date_ms = (\<lambda>t. 0), summarizer_reply = sr, voyage_reply = vr\<rparr>"

definition example_app :: "bool \<Rightarrow> app" where
  "example_app busy =
     \<lparr>isProcessing = busy, memoryStorage = example_storage [],
      summarizerClient = \<lparr>apiUrl = ''https://api.example/v1'', apiKey = ''key''\<rparr>,
      voyageClient = \<lparr>voyage_apiKey = ''key''\<rparr>,
      settings = \<lparr>include_history = True, history_count = 3, debug_mode = False\<rparr>\<rparr>"

definition example_context :: st_context where
  "example_context = \<lparr>characterId = Some ''c'', chatId = Some ''chat1'', chat = []\<rparr>"

definition example_message :: js_string where
  "example_message = js_string_of ''I told her the truth about the letter.''"

section \<open>Properties of the vector similarity\<close>

lemma cosine_loop_sums:
  "length a = length b \<Longrightarrow>
   cosine_loop a b (d, na, nb) =
     (d + sum_list (map2 (*) a b), na + sum_list (map (\<lambda>x. x * x) a),
      nb + sum_list (map (\<lambda>x. x * x) b))"
proof (induction a b "(d, na, nb)" arbitrary: d na nb rule: cosine_loop.induct)
  case (1 a as b bs dotProduct normA normB)
  then show ?case by (simp add: algebra_simps)
qed simp_all

lemma cosineSimilarity_eq:
  "length a = length b \<Longrightarrow>
   cosineSimilarity (Some a) (Some b) =
     (if sqrt (\<Sum>x\<leftarrow>a. x * x) = 0 \<or> sqrt (\<Sum>x\<leftarrow>b. x * x) = 0 then Num 0
      else js_divide (sum_list (map2 (*) a b))
             (sqrt (\<Sum>x\<leftarrow>a. x * x) * sqrt (\<Sum>x\<leftarrow>b. x * x)))"
  by (simp add: cosineSimilarity_def cosine_loop_sums)

lemma cosine_divisor_eq:
  "length a = length b \<Longrightarrow> cosine_divisor a b = sqrt (\<Sum>x\<leftarrow>a. x * x) * sqrt (\<Sum>x\<leftarrow>b. x * x)"
  by (simp add: cosine_divisor_def cosine_loop_sums)

lemma cosine_quotient_eq:
  "length a = length b \<Longrightarrow>
   cosine_quotient a b =
     js_divide (sum_list (map2 (*) a b)) (sqrt (\<Sum>x\<leftarrow>a. x * x) * sqrt (\<Sum>x\<leftarrow>b. x * x))"
  by (simp add: cosine_quotient_def cosine_loop_sums)

lemma js_divide_by_zero: "js_divide x 0 \<noteq> Num r"
  by (simp add: js_divide_def)

text \<open>
  Claim C7. \<^verbatim>\<open>cosineSimilarity\<close> returns exactly 0 when either vector is missing, when
  the lengths differ, and when either vector has zero norm. In the last case the divisor
  of the final division is 0, and the division would give \<^verbatim>\<open>NaN\<close> or an infinity, not a
  number: the guard returns 0 before it is performed. With two vectors of equal length and
  non-zero norm the result is the quotient of the last line. The function has no failing
  branch: it is total.
\<close>

theorem cosineSimilarity_fails_soft:
  "cosineSimilarity None vecB = Num 0 \<and>
   cosineSimilarity vecA None = Num 0 \<and>
   (length a \<noteq> length b \<longrightarrow> cosineSimilarity (Some a) (Some b) = Num 0) \<and>
   (length a = length b \<and> (sqrt (\<Sum>x\<leftarrow>a. x * x) = 0 \<or> sqrt (\<Sum>x\<leftarrow>b. x * x) = 0) \<longrightarrow>
      cosineSimilarity (Some a) (Some b) = Num 0 \<and>
      cosine_divisor a b = 0 \<and>
      (\<forall>r. cosine_quotient a b \<noteq> Num r)) \<and>
   (length a = length b \<and> sqrt (\<Sum>x\<leftarrow>a. x * x) \<noteq> 0 \<and> sqrt (\<Sum>x\<leftarrow>b. x * x) \<noteq> 0 \<longrightarrow>
      cosineSimilarity (Some a) (Some b) = cosine_quotient a b)"
proof -
  have 1: "cosineSimilarity None vecB = Num 0" by (simp add: cosineSimilarity_def)
  have 2: "cosineSimilarity vecA None = Num 0"
    by (simp add: cosineSimilarity_def split: option.splits)
  have 3: "length a \<noteq> length b \<longrightarrow> cosineSimilarity (Some a) (Some b) = Num 0"
    by (simp add: cosineSimilarity_def)
  have 4: "length a = length b \<and> (sqrt (\<Sum>x\<leftarrow>a. x * x) = 0 \<or> sqrt (\<Sum>x\<leftarrow>b. x * x) = 0) \<longrightarrow>
      cosineSimilarity (Some a) (Some b) = Num 0 \<and>
      cosine_divisor a b = 0 \<and>
      (\<forall>r. cosine_quotient a b \<noteq> Num r)"
  proof
    assume h: "length a = length b \<and> (sqrt (\<Sum>x\<leftarrow>a. x * x) = 0 \<or> sqrt (\<Sum>x\<leftarrow>b. x * x) = 0)"
    then have d: "cosine_divisor a b = 0" by (auto simp: cosine_divisor_eq)
    from h have "cosine_quotient a b = js_divide (sum_list (map2 (*) a b)) (cosine_divisor a b)"
      by (simp add: cosine_quotient_eq cosine_divisor_eq)
    then have q: "\<forall>r. cosine_quotient a b \<noteq> Num r" by (simp add: d js_divide_by_zero)
    from h have "cosineSimilarity (Some a) (Some b) = Num 0"
      using cosineSimilarity_eq [of a b] by auto
    with d q show "cosineSimilarity (Some a) (Some b) = Num 0 \<and> cosine_divisor a b = 0 \<and>
        (\<forall>r. cosine_quotient a b \<noteq> Num r)"
      by simp
  qed
  have 5: "length a = length b \<and> sqrt (\<Sum>x\<leftarrow>a. x * x) \<noteq> 0 \<and> sqrt (\<Sum>x\<leftarrow>b. x * x) \<noteq> 0 \<longrightarrow>
      cosineSimilarity (Some a) (Some b) = cosine_quotient a b"
    by (simp add: cosineSimilarity_eq cosine_quotient_eq)
  show ?thesis by (intro conjI; fact 1 2 3 4 5)
qed

theorem cosineSimilarity_fails_soft_witness:
  "cosineSimilarity (Some [1, 2]) (Some [3]) = Num 0 \<and>
   cosineSimilarity (Some [0, 0]) (Some [1, 2]) = Num 0 \<and>
   cosine_divisor [0, 0] [1, 2] = 0 \<and>
   cosine_quotient [0, 0] [1, 2] = NaN \<and>
   cosineSimilarity (Some [1, 0]) (Some [0, 1]) = cosine_quotient [1, 0] [0, 1] \<and>
   cosineSimilarity (Some [1, 0]) (Some [1, 0]) = Num 1"
  using cosineSimilarity_fails_soft [of "Some []" "Some []" "[1, 2]" "[3]"]
    cosineSimilarity_fails_soft [of "Some []" "Some []" "[0, 0]" "[1, 2]"]
    cosineSimilarity_fails_soft [of "Some []" "Some []" "[1, 0]" "[0, 1]"]
    cosineSimilarity_fails_soft [of "Some []" "Some []" "[1, 0]" "[1, 0]"]
  by (simp add: cosine_quotient_def js_divide_def)

section \<open>Properties of the retrieval\<close>





















section \<open>Properties of the memory storage\<close>

lemma loadMemories_cached:
  "cache (snd (loadMemories env st c n)) c = Some (fst (loadMemories env st c n))"
  by (simp add: loadMemories_def Let_def split: option.splits)

lemma loadMemories_hit:
  "cache st c = Some d \<Longrightarrow> loadMemories env st c n = (d, st)"
  by (simp add: loadMemories_def)

lemma loadMemories_localStorage:
  "localStorage (snd (loadMemories env st c n)) = localStorage st"
  by (simp add: loadMemories_def Let_def split: option.splits)

lemma loadMemories_other:
  "c' \<noteq> c \<Longrightarrow> cache (snd (loadMemories env st c n)) c' = cache st c'"
  by (simp add: loadMemories_def Let_def split: option.splits)

lemma saveMemories_cache:
  "cache (snd (saveMemories env st c d)) = (cache st)(c \<mapsto> d\<lparr>updated_at := now env\<rparr>)"
  by (simp add: saveMemories_def Let_def)

lemma saveMemories_localStorage:
  "localStorage (snd (saveMemories env st c d)) =
     (if setItem_ok env then (localStorage st)(''voyageai_memory_'' @ c \<mapsto> d\<lparr>updated_at := now env\<rparr>)
      else localStorage st)"
  by (simp add: saveMemories_def Let_def)

lemma saveMemories_result: "fst (saveMemories env st c d) = setItem_ok env"
  by (simp add: saveMemories_def Let_def)

lemma getMemories_eq:
  "getMemories env st c = (memories (fst (loadMemories env st c [])), snd (loadMemories env st c []))"
  by (simp add: getMemories_def split: prod.splits)

lemma getMemories_hit:
  "cache st c = Some d \<Longrightarrow> fst (getMemories env st c) = memories d"
  by (simp add: getMemories_eq loadMemories_hit)

lemma importMemories_StoreJson:
  "importMemories env st c (StoreJson d) merge =
     (Inr (length (memories d)),
      snd (saveMemories env (snd (loadMemories env st c [])) c
             ((fst (loadMemories env st c []))\<lparr>memories :=
                 import_result (fst (loadMemories env st c [])) d merge\<rparr>)))"
  by (simp add: importMemories_def import_result_def Let_def split: prod.splits)

lemma importMemories_cache:
  "cache (snd (importMemories env st c (StoreJson d) merge)) c =
     Some ((fst (loadMemories env st c []))\<lparr>memories :=
                 import_result (fst (loadMemories env st c [])) d merge, updated_at := now env\<rparr>)"
  by (simp add: importMemories_StoreJson saveMemories_cache)

lemma importMemories_memories:
  "fst (getMemories env' (snd (importMemories env st c (StoreJson d) merge)) c) =
     import_result (fst (loadMemories env st c [])) d merge"
  by (simp add: getMemories_hit [OF importMemories_cache])

lemma importMemories_localStorage:
  "localStorage (snd (importMemories env st c (StoreJson d) merge)) =
     (if setItem_ok env
      then (localStorage st)(''voyageai_memory_'' @ c \<mapsto>
             (fst (loadMemories env st c []))\<lparr>memories :=
                 import_result (fst (loadMemories env st c [])) d merge, updated_at := now env\<rparr>)
      else localStorage st)"
  by (simp add: importMemories_StoreJson saveMemories_localStorage loadMemories_localStorage)

lemma import_result_merge_again:
  "import_result (cur\<lparr>memories := import_result cur d True, updated_at := t\<rparr>) d True =
     import_result cur d True"
  by (auto simp: import_result_def filter_empty_conv)

lemma addMemory_eq:
  "addMemory env st c pm =
     (newMemory env pm,
      snd (saveMemories env (snd (loadMemories env st c [])) c
            ((fst (loadMemories env st c []))\<lparr>memories :=
                memories (fst (loadMemories env st c [])) @ [newMemory env pm]\<rparr>)))"
  by (simp add: addMemory_def Let_def split: prod.splits)

lemma addMemory_memories:
  "fst (getMemories env' (snd (addMemory env st c pm)) c) =
     fst (getMemories env st c) @ [newMemory env pm]"
proof -
  have "cache (snd (addMemory env st c pm)) c =
      Some ((fst (loadMemories env st c []))\<lparr>memories :=
                memories (fst (loadMemories env st c [])) @ [newMemory env pm],
                updated_at := now env\<rparr>)"
    by (simp add: addMemory_eq saveMemories_cache)
  from getMemories_hit [OF this] show ?thesis by (simp add: getMemories_eq)
qed

lemma uuid_fill_length: "length (uuid_fill rnd i cs) = length cs"
  by (induction cs arbitrary: i) simp_all


lemma generateUUID_length: "length (generateUUID rnd) = 36"
  by (simp add: generateUUID_def uuid_fill_length)

text \<open>
  Claim C3, as amended. \<^verbatim>\<open>importMemories\<close> is all-or-nothing only for a malformed payload:
  text that is not JSON, or that has no array-typed \<^verbatim>\<open>memories\<close> field, makes the call fail
  and leaves the cache and the persisted data as they were. For any other payload the call
  reports success: it returns a count, the cache entry of the entity holds the full result
  of the import with \<^verbatim>\<open>updated_at\<close> refreshed, and the persisted copy equals that cache entry
  when the write succeeds and is left as it was when the write fails.
\<close>

theorem importMemories_cache_then_persist:
  "importMemories env st c NotJson merge = (Inl SyntaxError, st) \<and>
   importMemories env st c NoMemoriesArray merge = (Inl (Error ''Invalid memory file format''), st) \<and>
   fst (importMemories env st c (StoreJson d) merge) = Inr (length (memories d)) \<and>
   cache (snd (importMemories env st c (StoreJson d) merge)) c =
     Some ((fst (loadMemories env st c []))\<lparr>memories :=
             import_result (fst (loadMemories env st c [])) d merge, updated_at := now env\<rparr>) \<and>
   (setItem_ok env \<longrightarrow>
      localStorage (snd (importMemories env st c (StoreJson d) merge)) (''voyageai_memory_'' @ c) =
        cache (snd (importMemories env st c (StoreJson d) merge)) c) \<and>
   (\<not> setItem_ok env \<longrightarrow>
      localStorage (snd (importMemories env st c (StoreJson d) merge)) = localStorage st)"
proof -
  have 1: "importMemories env st c NotJson merge = (Inl SyntaxError, st)"
    and 2: "importMemories env st c NoMemoriesArray merge =
              (Inl (Error ''Invalid memory file format''), st)"
    by (simp_all add: importMemories_def)
  have 3: "fst (importMemories env st c (StoreJson d) merge) = Inr (length (memories d))"
    by (simp add: importMemories_StoreJson)
  have 5: "setItem_ok env \<longrightarrow>
      localStorage (snd (importMemories env st c (StoreJson d) merge)) (''voyageai_memory_'' @ c) =
        cache (snd (importMemories env st c (StoreJson d) merge)) c"
    by (simp add: importMemories_localStorage importMemories_cache)
  have 6: "\<not> setItem_ok env \<longrightarrow>
      localStorage (snd (importMemories env st c (StoreJson d) merge)) = localStorage st"
    by (simp add: importMemories_localStorage)
  show ?thesis by (intro conjI; fact 1 2 3 5 6 importMemories_cache)
qed

theorem importMemories_cache_then_persist_witness:
  "setItem_ok (example_io True) \<and> \<not> setItem_ok (example_io False) \<and>
   cache (snd (importMemories (example_io True) (example_storage [example_memory ''a'' None]) ''c''
      (StoreJson \<lparr>character_id = ''x'', character_name = [], created_at = [], updated_at = [],
                  memories = [example_memory ''b'' None]\<rparr>) False)) ''c'' =
     Some \<lparr>character_id = ''c'', character_name = [], created_at = ''t0'', updated_at = ''t1'',
           memories = [example_memory ''b'' None]\<rparr> \<and>
   localStorage (snd (importMemories (example_io True) (example_storage [example_memory ''a'' None]) ''c''
      (StoreJson \<lparr>character_id = ''x'', character_name = [], created_at = [], updated_at = [],
                  memories = [example_memory ''b'' None]\<rparr>) False)) ''voyageai_memory_c'' =
     Some \<lparr>character_id = ''c'', character_name = [], created_at = ''t0'', updated_at = ''t1'',
           memories = [example_memory ''b'' None]\<rparr> \<and>
   localStorage (snd (importMemories (example_io False) (example_storage [example_memory ''a'' None]) ''c''
      (StoreJson \<lparr>character_id = ''x'', character_name = [], created_at = [], updated_at = [],
                  memories = [example_memory ''b'' None]\<rparr>) False)) =
     localStorage (example_storage [example_memory ''a'' None])"
  using importMemories_cache_then_persist [of "example_io True"
      "example_storage [example_memory ''a'' None]" "''c''" False
      "\<lparr>character_id = ''x'', character_name = [], created_at = [], updated_at = [],
                  memories = [example_memory ''b'' None]\<rparr>"]
    importMemories_cache_then_persist [of "example_io False"
      "example_storage [example_memory ''a'' None]" "''c''" False
      "\<lparr>character_id = ''x'', character_name = [], created_at = [], updated_at = [],
                  memories = [example_memory ''b'' None]\<rparr>"]
  by (simp add: example_io_def example_storage_def loadMemories_def import_result_def)

text \<open>
  The claim as first stated fails when \<^verbatim>\<open>localStorage.setItem\<close> throws: the import of one
  memory over a store holding another one reports success, the cache holds the imported
  memory, and nothing was persisted.
\<close>

theorem importMemories_not_atomic_counterexample:
  "fst (importMemories (example_io False) (example_storage [example_memory ''a'' None]) ''c''
      (StoreJson \<lparr>character_id = ''x'', character_name = [], created_at = [], updated_at = [],
                  memories = [example_memory ''b'' None]\<rparr>) False) = Inr 1 \<and>
   map_option memories (cache (example_storage [example_memory ''a'' None]) ''c'') =
     Some [example_memory ''a'' None] \<and>
   map_option memories
     (cache (snd (importMemories (example_io False) (example_storage [example_memory ''a'' None]) ''c''
      (StoreJson \<lparr>character_id = ''x'', character_name = [], created_at = [], updated_at = [],
                  memories = [example_memory ''b'' None]\<rparr>) False)) ''c'') =
     Some [example_memory ''b'' None] \<and>
   localStorage (snd (importMemories (example_io False) (example_storage [example_memory ''a'' None]) ''c''
      (StoreJson \<lparr>character_id = ''x'', character_name = [], created_at = [], updated_at = [],
                  memories = [example_memory ''b'' None]\<rparr>) False)) ''voyageai_memory_c'' = None"
  by (simp add: importMemories_def saveMemories_def loadMemories_def example_io_def
      example_storage_def Let_def)

text \<open>
  Claim C4 at a failing input. A merge import of a payload whose only memory is already in
  the store adds nothing, and the call returns 1: the returned number is the length of the
  payload's \<^verbatim>\<open>memories\<close> array, not the number of memories added.
\<close>

theorem importMemories_merge_count_failing_input:
  "fst (importMemories (example_io True) (example_storage [example_memory ''a'' None]) ''c''
      (StoreJson \<lparr>character_id = ''c'', character_name = [], created_at = [], updated_at = [],
                  memories = [example_memory ''a'' None]\<rparr>) True) = Inr 1 \<and>
   map_option memories
     (cache (snd (importMemories (example_io True) (example_storage [example_memory ''a'' None]) ''c''
      (StoreJson \<lparr>character_id = ''c'', character_name = [], created_at = [], updated_at = [],
                  memories = [example_memory ''a'' None]\<rparr>) True)) ''c'') =
     Some [example_memory ''a'' None]"
  by (simp add: importMemories_def saveMemories_def loadMemories_def example_io_def
      example_storage_def Let_def)


lemma exportMemories_eq:
  "exportMemories env st c =
     (StoreJson (fst (loadMemories env st c [])), snd (loadMemories env st c []))"
  by (simp add: exportMemories_def split: prod.splits)

lemma loadMemories_again:
  "loadMemories env' (snd (loadMemories env st c n)) c n' =
     (fst (loadMemories env st c n), snd (loadMemories env st c n))"
  by (rule loadMemories_hit) (rule loadMemories_cached)

text \<open>
  Claim C5. What \<^verbatim>\<open>exportMemories\<close> produces for an entity of a store, imported with
  \<^verbatim>\<open>merge = false\<close> into any entity of any store (so also back into the entity it came
  from, whatever has happened to it since), is accepted, and leaves that entity with
  exactly the exported memory sequence: the same records in the same order, ids and
  embeddings included. When the write succeeds, the persisted copy holds that sequence too.
\<close>

theorem export_import_roundtrip:
  "fst (importMemories env2 st' c' (fst (exportMemories env1 st c)) False) =
     Inr (length (fst (getMemories env1 st c))) \<and>
   fst (getMemories env3
          (snd (importMemories env2 st' c' (fst (exportMemories env1 st c)) False)) c') =
     fst (getMemories env1 st c) \<and>
   (setItem_ok env2 \<longrightarrow>
      map_option memories
        (localStorage (snd (importMemories env2 st' c' (fst (exportMemories env1 st c)) False))
           (''voyageai_memory_'' @ c')) =
      Some (fst (getMemories env1 st c)))"
proof -
  let ?d = "fst (loadMemories env1 st c [])"
  have 1: "fst (importMemories env2 st' c' (StoreJson ?d) False) = Inr (length (memories ?d))"
    by (simp add: importMemories_StoreJson)
  have 2: "fst (getMemories env3 (snd (importMemories env2 st' c' (StoreJson ?d) False)) c') =
      memories ?d"
    unfolding importMemories_memories by (simp add: import_result_def)
  have 3: "setItem_ok env2 \<longrightarrow>
      map_option memories
        (localStorage (snd (importMemories env2 st' c' (StoreJson ?d) False))
           (''voyageai_memory_'' @ c')) = Some (memories ?d)"
    by (simp add: importMemories_localStorage import_result_def)
  from 1 2 3 show ?thesis by (simp add: exportMemories_eq getMemories_eq)
qed

theorem export_import_roundtrip_witness:
  "setItem_ok (example_io True) \<and>
   fst (getMemories (example_io True)
          (snd (importMemories (example_io True)
                  (example_storage [example_memory ''x'' None]) ''c''
                  (fst (exportMemories (example_io True)
                          (example_storage [example_memory ''a'' (Some [1, 2]),
                                            example_memory ''b'' None]) ''c'')) False)) ''c'') =
     [example_memory ''a'' (Some [1, 2]), example_memory ''b'' None] \<and>
   map_option memories
     (localStorage (snd (importMemories (example_io True)
                  (example_storage [example_memory ''x'' None]) ''c''
                  (fst (exportMemories (example_io True)
                          (example_storage [example_memory ''a'' (Some [1, 2]),
                                            example_memory ''b'' None]) ''c'')) False))
        ''voyageai_memory_c'') =
     Some [example_memory ''a'' (Some [1, 2]), example_memory ''b'' None]"
proof -
  have ok: "setItem_ok (example_io True)" by (simp add: example_io_def)
  have src: "fst (getMemories (example_io True)
                (example_storage [example_memory ''a'' (Some [1, 2]), example_memory ''b'' None])
                ''c'') = [example_memory ''a'' (Some [1, 2]), example_memory ''b'' None]"
    by (simp add: getMemories_def loadMemories_def example_storage_def)
  note T = export_import_roundtrip [of "example_io True"
      "example_storage [example_memory ''x'' None]" "''c''" "example_io True"
      "example_storage [example_memory ''a'' (Some [1, 2]), example_memory ''b'' None]" "''c''"
      "example_io True"]
  from T ok src show ?thesis by simp
qed

text \<open>
  Claim C6. After an exported payload has been imported with \<^verbatim>\<open>merge = true\<close>, importing
  the same payload with \<^verbatim>\<open>merge = true\<close> again leaves the memory sequence of the store, and
  so its memory count, unchanged: every id of the payload is already there.
\<close>

theorem merge_import_idempotent:
  "fst (getMemories env4
          (snd (importMemories env3
                  (snd (importMemories env2 st c (fst (exportMemories env1 st1 c1)) True)) c
                  (fst (exportMemories env1 st1 c1)) True)) c) =
   fst (getMemories env4
          (snd (importMemories env2 st c (fst (exportMemories env1 st1 c1)) True)) c) \<and>
   length (fst (getMemories env4
          (snd (importMemories env3
                  (snd (importMemories env2 st c (fst (exportMemories env1 st1 c1)) True)) c
                  (fst (exportMemories env1 st1 c1)) True)) c)) =
   length (fst (getMemories env4
          (snd (importMemories env2 st c (fst (exportMemories env1 st1 c1)) True)) c))"
proof -
  let ?d = "fst (loadMemories env1 st1 c1 [])"
  let ?st2 = "snd (importMemories env2 st c (StoreJson ?d) True)"
  have "loadMemories env3 ?st2 c [] =
      ((fst (loadMemories env2 st c []))\<lparr>memories :=
             import_result (fst (loadMemories env2 st c [])) ?d True, updated_at := now env2\<rparr>, ?st2)"
    by (rule loadMemories_hit) (rule importMemories_cache)
  then have "fst (getMemories env4 (snd (importMemories env3 ?st2 c (StoreJson ?d) True)) c) =
      fst (getMemories env4 ?st2 c)"
    by (simp add: importMemories_memories import_result_merge_again)
  then show ?thesis by (simp add: exportMemories_eq)
qed

theorem merge_import_idempotent_witness:
  "length (fst (getMemories (example_io True)
          (snd (importMemories (example_io True)
                  (snd (importMemories (example_io True) (example_storage [example_memory ''a'' None]) ''c''
                     (fst (exportMemories (example_io True)
                             (example_storage [example_memory ''a'' None, example_memory ''b'' None])
                             ''c'')) True)) ''c''
                  (fst (exportMemories (example_io True)
                          (example_storage [example_memory ''a'' None, example_memory ''b'' None])
                          ''c'')) True)) ''c'')) = 2 \<and>
   length (fst (getMemories (example_io True)
                  (snd (importMemories (example_io True) (example_storage [example_memory ''a'' None]) ''c''
                     (fst (exportMemories (example_io True)
                             (example_storage [example_memory ''a'' None, example_memory ''b'' None])
                             ''c'')) True)) ''c'')) = 2"
  using merge_import_idempotent [of "example_io True" "example_io True" "example_io True"
      "example_storage [example_memory ''a'' None]" "''c''" "example_io True"
      "example_storage [example_memory ''a'' None, example_memory ''b'' None]" "''c''"]
  by (simp add: getMemories_def importMemories_def saveMemories_def exportMemories_def
      loadMemories_def example_storage_def example_io_def example_memory_def Let_def)

text \<open>
  Claim C8, as amended. For a partial memory without an id of its own (as \<^verbatim>\<open>createMemory\<close>
  builds it), \<^verbatim>\<open>addMemory\<close> appends one record, keeping the records that were there; its id
  is the 36-character string that \<^verbatim>\<open>generateUUID\<close> makes of the random draws. No id of the
  store is consulted: the ids of the store are distinct afterwards exactly when they were
  distinct before and the generated id is not among them.
\<close>

theorem addMemory_appends:
  assumes "pm_id pm = None"
  shows "mem_id (fst (addMemory env st c pm)) = generateUUID (random env) \<and>
         length (mem_id (fst (addMemory env st c pm))) = 36 \<and>
         fst (getMemories env' (snd (addMemory env st c pm)) c) =
           fst (getMemories env st c) @ [fst (addMemory env st c pm)] \<and>
         (distinct (map mem_id (fst (getMemories env' (snd (addMemory env st c pm)) c))) \<longleftrightarrow>
            distinct (map mem_id (fst (getMemories env st c))) \<and>
            generateUUID (random env) \<notin> set (map mem_id (fst (getMemories env st c))))"
proof -
  have m: "fst (addMemory env st c pm) = newMemory env pm" by (simp add: addMemory_eq)
  have i: "mem_id (newMemory env pm) = generateUUID (random env)"
    using assms by (simp add: newMemory_def)
  show ?thesis
    unfolding m addMemory_memories by (auto simp: i generateUUID_length)
qed

theorem addMemory_appends_witness:
  "pm_id (createMemory (js_string_of ''hello'') (js_string_of ''hi'') (Some [1]) \<lparr>opt_role = Some ''user'', opt_chatId = None,
        opt_importance = None\<rparr>) = None \<and>
   mem_id (fst (addMemory (example_io True) (example_storage [example_memory ''a'' None]) ''c''
     (createMemory (js_string_of ''hello'') (js_string_of ''hi'') (Some [1]) \<lparr>opt_role = Some ''user'', opt_chatId = None,
        opt_importance = None\<rparr>))) = ''00000000-0000-4000-8000-000000000000'' \<and>
   distinct (map mem_id (fst (getMemories (example_io True)
     (snd (addMemory (example_io True) (example_storage [example_memory ''a'' None]) ''c''
       (createMemory (js_string_of ''hello'') (js_string_of ''hi'') (Some [1]) \<lparr>opt_role = Some ''user'', opt_chatId = None,
        opt_importance = None\<rparr>))) ''c'')))"
  using addMemory_appends [of "createMemory (js_string_of ''hello'') (js_string_of ''hi'') (Some [1])
        \<lparr>opt_role = Some ''user'', opt_chatId = None, opt_importance = None\<rparr>"
      "example_io True" "example_storage [example_memory ''a'' None]" "''c''" "example_io True"]
  by (simp add: createMemory_def example_io_def example_storage_def example_memory_def
      getMemories_def loadMemories_def generateUUID_def hex_digit_def)

text \<open>
  The claim as first stated fails: when the random draws of two calls coincide, the second
  record gets the id of the first; and an id that the argument itself carries replaces the
  generated one, so it can repeat an id of the store.
\<close>

theorem addMemory_id_collision_counterexample:
  "mem_id (fst (addMemory (example_io True)
      (snd (addMemory (example_io True) (example_storage []) ''c''
              (createMemory (js_string_of ''first'') (js_string_of ''s1'') (Some [1]) \<lparr>opt_role = None, opt_chatId = None,
                 opt_importance = None\<rparr>))) ''c''
      (createMemory (js_string_of ''second'') (js_string_of ''s2'') (Some [1]) \<lparr>opt_role = None, opt_chatId = None,
                 opt_importance = None\<rparr>))) =
   mem_id (fst (addMemory (example_io True) (example_storage []) ''c''
              (createMemory (js_string_of ''first'') (js_string_of ''s1'') (Some [1]) \<lparr>opt_role = None, opt_chatId = None,
                 opt_importance = None\<rparr>))) \<and>
   map mem_id (fst (getMemories (example_io True)
      (snd (addMemory (example_io True) (example_storage [example_memory ''a'' None]) ''c''
         \<lparr>pm_id = Some ''a'', pm_timestamp = None, pm_original_message = js_string_of ''m'',
          pm_summary = js_string_of ''s'',
          pm_embedding = Some [1],
          pm_metadata = \<lparr>role = ''user'', chat_id = None, importance = 1 / 2\<rparr>\<rparr>)) ''c'')) =
     [''a'', ''a'']"
  by (simp add: addMemory_def newMemory_def createMemory_def saveMemories_def getMemories_def
      loadMemories_def example_io_def example_storage_def example_memory_def Let_def)
section \<open>Properties of the summarization client\<close>

lemma js_trim_empty_iff: "js_trim m = [] \<longleftrightarrow> (\<forall>ch\<in>set m. js_space ch)"
proof
  assume "js_trim m = []"
  then have "dropWhile js_space (rev (dropWhile js_space m)) = []" by (simp add: js_trim_def)
  then have "\<forall>ch\<in>set (rev (dropWhile js_space m)). js_space ch" by (simp add: dropWhile_eq_Nil_conv)
  then have "\<forall>ch\<in>set (dropWhile js_space m). js_space ch" by simp
  then have "dropWhile js_space m = []"
    by (metis dropWhile_eq_Nil_conv hd_dropWhile list.set_sel(1))
  then show "\<forall>ch\<in>set m. js_space ch" by (simp add: dropWhile_eq_Nil_conv)
next
  assume "\<forall>ch\<in>set m. js_space ch"
  then have "dropWhile js_space m = []" by (simp add: dropWhile_eq_Nil_conv)
  then show "js_trim m = []" by (simp add: js_trim_def del: dropWhile_eq_Nil_conv)
qed

lemma js_trim_length: "length (js_trim m) \<le> length m"
proof -
  have "length (dropWhile js_space (rev (dropWhile js_space m))) \<le> length (rev (dropWhile js_space m))"
    by (rule length_dropWhile_le)
  also have "\<dots> \<le> length m" by (simp add: length_dropWhile_le)
  finally show ?thesis by (simp add: js_trim_def)
qed

text \<open>
  Claim C10. With the API URL and key configured, \<^verbatim>\<open>summarize\<close> returns the empty string
  for a message that is missing, empty or made only of code units that \<^verbatim>\<open>trim\<close> removes,
  and issues no HTTP request. The error \<^verbatim>\<open>No summary generated\<close> is raised only for a
  message with a code unit that is not white space, after a request was made, when the
  response has no summary content or content of white space only.
\<close>

theorem summarize_blank_message:
  "(apiUrl c \<noteq> [] \<and> apiKey c \<noteq> [] \<longrightarrow> summarize c None reply = (Inr [], [])) \<and>
   (apiUrl c \<noteq> [] \<and> apiKey c \<noteq> [] \<and> (\<forall>ch\<in>set m. js_space ch) \<longrightarrow>
      summarize c (Some m) reply = (Inr [], [])) \<and>
   (fst (summarize c message reply) = Inl (Error ''No summary generated'') \<longrightarrow>
      (\<exists>t. message = Some t \<and> (\<exists>ch\<in>set t. \<not> js_space ch)) \<and>
      SummarizerRequest \<in> set (snd (summarize c message reply)) \<and>
      (reply = SCompletion None \<or>
       (\<exists>content. reply = SCompletion (Some content) \<and> (\<forall>ch\<in>set content. js_space ch))))"
proof -
  have 1: "apiUrl c \<noteq> [] \<and> apiKey c \<noteq> [] \<longrightarrow> summarize c None reply = (Inr [], [])"
    by (simp add: summarize_def)
  have 2: "apiUrl c \<noteq> [] \<and> apiKey c \<noteq> [] \<and> (\<forall>ch\<in>set m. js_space ch) \<longrightarrow>
      summarize c (Some m) reply = (Inr [], [])"
    using js_trim_empty_iff [of m] by (simp add: summarize_def)
  have 3: "fst (summarize c message reply) = Inl (Error ''No summary generated'') \<longrightarrow>
      (\<exists>t. message = Some t \<and> (\<exists>ch\<in>set t. \<not> js_space ch)) \<and>
      SummarizerRequest \<in> set (snd (summarize c message reply)) \<and>
      (reply = SCompletion None \<or>
       (\<exists>content. reply = SCompletion (Some content) \<and> (\<forall>ch\<in>set content. js_space ch)))"
  proof
    assume h: "fst (summarize c message reply) = Inl (Error ''No summary generated'')"
    then have cfg: "apiUrl c \<noteq> [] \<and> apiKey c \<noteq> []"
      by (auto simp: summarize_def split: if_splits)
    from h cfg obtain t where t: "message = Some t" "js_trim t \<noteq> []"
      by (cases message) (auto simp: summarize_def split: if_splits)
    from t(2) have nb: "\<exists>ch\<in>set t. \<not> js_space ch" by (simp add: js_trim_empty_iff)
    have eq: "summarize c message reply =
        (case reply of
           SFetchRejected \<Rightarrow> (Inl FetchFailed, [SummarizerRequest, ConsoleError])
         | SHttpError status msg \<Rightarrow> (Inl (ApiError status msg), [SummarizerRequest, ConsoleError])
         | SBodyNotJson \<Rightarrow> (Inl SyntaxError, [SummarizerRequest, ConsoleError])
         | SCompletion content \<Rightarrow>
             (case content of
                None \<Rightarrow> (Inl (Error ''No summary generated''), [SummarizerRequest, ConsoleError])
              | Some c \<Rightarrow>
                  if js_trim c = []
                  then (Inl (Error ''No summary generated''), [SummarizerRequest, ConsoleError])
                  else (Inr (js_trim c), [SummarizerRequest])))"
      using cfg t by (auto simp: summarize_def js_trim_def)
    have req: "SummarizerRequest \<in> set (snd (summarize c message reply))"
      unfolding eq by (simp split: summarizer_reply.splits option.splits)
    have rep: "reply = SCompletion None \<or>
       (\<exists>content. reply = SCompletion (Some content) \<and> (\<forall>ch\<in>set content. js_space ch))"
      using h unfolding eq
      by (auto simp: js_trim_empty_iff split: summarizer_reply.splits option.splits if_splits)
    from t(1) nb req rep show "(\<exists>t. message = Some t \<and> (\<exists>ch\<in>set t. \<not> js_space ch)) \<and>
      SummarizerRequest \<in> set (snd (summarize c message reply)) \<and>
      (reply = SCompletion None \<or>
       (\<exists>content. reply = SCompletion (Some content) \<and> (\<forall>ch\<in>set content. js_space ch)))"
      by blast
  qed
  show ?thesis by (intro conjI; fact 1 2 3)
qed

theorem summarize_blank_message_witness:
  "summarize \<lparr>apiUrl = ''u'', apiKey = ''k''\<rparr> None (SCompletion (Some (js_string_of ''text''))) =
     (Inr [], []) \<and>
   summarize \<lparr>apiUrl = ''u'', apiKey = ''k''\<rparr> (Some [0x20, 0xA0, 0x0A, 0x2003, 0xFEFF])
      (SCompletion (Some (js_string_of ''text''))) = (Inr [], []) \<and>
   fst (summarize \<lparr>apiUrl = ''u'', apiKey = ''k''\<rparr> (Some (js_string_of ''hello''))
          (SCompletion (Some [0xA0, 0x20]))) = Inl (Error ''No summary generated'') \<and>
   SummarizerRequest \<in> set (snd (summarize \<lparr>apiUrl = ''u'', apiKey = ''k''\<rparr>
      (Some (js_string_of ''hello'')) (SCompletion (Some [0xA0, 0x20]))))"
proof -
  have cfg: "apiUrl \<lparr>apiUrl = ''u'', apiKey = ''k''\<rparr> \<noteq> [] \<and>
      apiKey \<lparr>apiUrl = ''u'', apiKey = ''k''\<rparr> \<noteq> []"
    by simp
  have blank: "\<forall>ch\<in>set [0x20, 0xA0, 0x0A, 0x2003, 0xFEFF]. js_space ch"
    by (simp add: js_space_def)
  have err: "fst (summarize \<lparr>apiUrl = ''u'', apiKey = ''k''\<rparr> (Some (js_string_of ''hello''))
          (SCompletion (Some [0xA0, 0x20]))) = Inl (Error ''No summary generated'')"
    by (simp add: summarize_def js_trim_def js_space_def js_string_of_def)
  note T =
    summarize_blank_message [of "\<lparr>apiUrl = ''u'', apiKey = ''k''\<rparr>"
      "SCompletion (Some (js_string_of ''text''))" "[0x20, 0xA0, 0x0A, 0x2003, 0xFEFF]" None]
  note U =
    summarize_blank_message [of "\<lparr>apiUrl = ''u'', apiKey = ''k''\<rparr>"
      "SCompletion (Some [0xA0, 0x20])" "[]" "Some (js_string_of ''hello'')"]
  from T [THEN conjunct1] cfg
  have 1: "summarize \<lparr>apiUrl = ''u'', apiKey = ''k''\<rparr> None
      (SCompletion (Some (js_string_of ''text''))) = (Inr [], [])"
    by simp
  from T [THEN conjunct2, THEN conjunct1] cfg blank
  have 2: "summarize \<lparr>apiUrl = ''u'', apiKey = ''k''\<rparr> (Some [0x20, 0xA0, 0x0A, 0x2003, 0xFEFF])
      (SCompletion (Some (js_string_of ''text''))) = (Inr [], [])"
    by blast
  from U [THEN conjunct2, THEN conjunct2] err
  have 3: "SummarizerRequest \<in> set (snd (summarize \<lparr>apiUrl = ''u'', apiKey = ''k''\<rparr>
      (Some (js_string_of ''hello'')) (SCompletion (Some [0xA0, 0x20]))))"
    by blast
  from 1 2 err 3 show ?thesis by (intro conjI)
qed
section \<open>Properties of the write path\<close>

lemma summarize_events:
  "set (snd (summarize c m r)) \<subseteq> {SummarizerRequest, ConsoleError}"
  by (auto simp: summarize_def split: summarizer_reply.splits option.splits if_splits)

lemma embed_events:
  "set (snd (embed c ts r)) \<subseteq> {EmbeddingRequest, ConsoleError}"
  by (auto simp: embed_def split: voyage_reply.splits if_splits)

lemma embedDocument_events:
  "set (snd (embedDocument c t r)) \<subseteq> {EmbeddingRequest, ConsoleError}"
proof -
  have "snd (embedDocument c t r) = snd (embed c [t] r)"
    by (simp add: embedDocument_def split: prod.splits sum.splits)
  then show ?thesis by (simp add: embed_events)
qed

lemma stage_calls_summarize [simp]: "stage_calls (snd (summarize c m r)) = []"
  using summarize_events [of c m r] by (auto simp: stage_calls_def filter_empty_conv)

lemma stage_calls_embedDocument [simp]: "stage_calls (snd (embedDocument c t r)) = []"
  using embedDocument_events [of c t r] by (auto simp: stage_calls_def filter_empty_conv)

lemma error_toasts_summarize [simp]: "error_toasts (snd (summarize c m r)) = []"
  using summarize_events [of c m r] by (auto simp: error_toasts_def filter_empty_conv)

lemma error_toasts_embedDocument [simp]: "error_toasts (snd (embedDocument c t r)) = []"
  using embedDocument_events [of c t r] by (auto simp: error_toasts_def filter_empty_conv)

lemma no_success_summarize [simp]: "ToastSuccess \<notin> set (snd (summarize c m r))"
  using summarize_events [of c m r] by auto

lemma no_success_embedDocument [simp]: "ToastSuccess \<notin> set (snd (embedDocument c t r))"
  using embedDocument_events [of c t r] by auto

lemma stage_calls_append [simp]: "stage_calls (xs @ ys) = stage_calls xs @ stage_calls ys"
  by (simp add: stage_calls_def)

lemma error_toasts_append [simp]: "error_toasts (xs @ ys) = error_toasts xs @ error_toasts ys"
  by (simp add: error_toasts_def)

lemma stage_calls_Cons [simp]:
  "stage_calls (e # xs) = (if e = Summarize \<or> e = Embed \<or> e = Store then e # stage_calls xs
                           else stage_calls xs)"
  by (simp add: stage_calls_def)

lemma error_toasts_Cons [simp]:
  "error_toasts (e # xs) = (case e of ToastError x \<Rightarrow> e # error_toasts xs | _ \<Rightarrow> error_toasts xs)"
  by (simp add: error_toasts_def split: event.splits)

lemma stage_calls_Nil [simp]: "stage_calls [] = []" by (simp add: stage_calls_def)
lemma error_toasts_Nil [simp]: "error_toasts [] = []" by (simp add: error_toasts_def)

lemma getRecentSummaries_storage:
  "snd (getRecentSummaries w st cid n) = snd (loadMemories (w_io w) st cid [])"
  by (simp add: getRecentSummaries_def getMemories_eq)

lemma loadMemories_dataPath: "dataPath (snd (loadMemories env st c n)) = dataPath st"
  by (simp add: loadMemories_def Let_def split: option.splits)

lemma loadMemories_cong:
  "cache st' c = cache st c \<Longrightarrow> dataPath st' = dataPath st \<Longrightarrow>
   fst (loadMemories env st' c n) = fst (loadMemories env st c n)"
  by (simp add: loadMemories_def getFilePath_def Let_def split: option.splits)

lemma loadMemories_observes_nothing:
  "fst (getMemories env (snd (loadMemories env st cid [])) c) = fst (getMemories env st c)"
proof (cases "c = cid")
  case True
  then show ?thesis by (simp add: getMemories_eq loadMemories_again)
next
  case False
  then have "fst (loadMemories env (snd (loadMemories env st cid [])) c []) =
      fst (loadMemories env st c [])"
    by (intro loadMemories_cong loadMemories_other loadMemories_dataPath)
  then show ?thesis by (simp add: getMemories_eq)
qed


lemma history_storage_flag [simp]:
  "history_storage w (a\<lparr>isProcessing := b\<rparr>) ctx = history_storage w a ctx"
  by (simp add: history_storage_def split: option.splits)

lemma history_no_record: "no_record_added (w_io w) (memoryStorage a) (history_storage w a ctx)"
  by (simp add: no_record_added_def history_storage_def getRecentSummaries_storage
      loadMemories_observes_nothing loadMemories_localStorage split: option.splits)

lemma try_eq:
  "processAndStoreMessage_try w a t rl ctx =
     (case fst (summarize (summarizerClient a) (Some t) (summarizer_reply w)) of
        Inl e \<Rightarrow> (Inl e, history_storage w a ctx,
                  Summarize # snd (summarize (summarizerClient a) (Some t) (summarizer_reply w)))
      | Inr summ \<Rightarrow>
          if summ = []
          then (Inl (Error ''Failed to generate summary''), history_storage w a ctx,
                Summarize # snd (summarize (summarizerClient a) (Some t) (summarizer_reply w)))
          else
            (case fst (embedDocument (voyageClient a) summ (voyage_reply w)) of
               Inl e \<Rightarrow> (Inl e, history_storage w a ctx,
                         Summarize # snd (summarize (summarizerClient a) (Some t) (summarizer_reply w)) @
                         Embed # snd (embedDocument (voyageClient a) summ (voyage_reply w)))
             | Inr emb \<Rightarrow>
                 if length emb = 0
                 then (Inl (Error ''Failed to generate embedding''), history_storage w a ctx,
                       Summarize # snd (summarize (summarizerClient a) (Some t) (summarizer_reply w)) @
                       Embed # snd (embedDocument (voyageClient a) summ (voyage_reply w)))
                 else
                   (case characterId ctx of
                      None \<Rightarrow> (Inl TypeError, history_storage w a ctx,
                                Summarize # snd (summarize (summarizerClient a) (Some t) (summarizer_reply w)) @
                                Embed # snd (embedDocument (voyageClient a) summ (voyage_reply w)) @ [Store])
                    | Some cid \<Rightarrow>
                        (Inr (),
                         snd (addMemory (w_io w) (history_storage w a ctx) cid
                                (createMemory t summ (Some emb)
                                   \<lparr>opt_role = Some rl, opt_chatId = chatId ctx,
                                    opt_importance = None\<rparr>)),
                         Summarize # snd (summarize (summarizerClient a) (Some t) (summarizer_reply w)) @
                         Embed # snd (embedDocument (voyageClient a) summ (voyage_reply w)) @
                         [Store, ToastSuccess]))))"
  unfolding processAndStoreMessage_try_def history_storage_def
  by (simp add: case_prod_beta split: option.splits sum.splits prod.splits)

lemma pasm_eq:
  "\<not> isProcessing a \<Longrightarrow> \<not> too_short (Some t) \<Longrightarrow>
   processAndStoreMessage w a (Some t) rl ctx =
     (a\<lparr>isProcessing := False,
        memoryStorage := fst (snd (processAndStoreMessage_try w (a\<lparr>isProcessing := True\<rparr>) t rl ctx))\<rparr>,
      snd (snd (processAndStoreMessage_try w (a\<lparr>isProcessing := True\<rparr>) t rl ctx)) @
      (case fst (processAndStoreMessage_try w (a\<lparr>isProcessing := True\<rparr>) t rl ctx) of
         Inl e \<Rightarrow> [ConsoleError, ToastError e] | Inr u \<Rightarrow> []))"
  by (simp add: processAndStoreMessage_def processAndStoreMessage_enter_def
      processAndStoreMessage_run_def split: prod.splits sum.splits)

lemma pasm_summarize_error:
  assumes "\<not> isProcessing a" "\<not> too_short (Some t)"
    and "fst (summarize (summarizerClient a) (Some t) (summarizer_reply w)) = Inl e"
  shows "processAndStoreMessage w a (Some t) rl ctx =
      (a\<lparr>isProcessing := False, memoryStorage := history_storage w a ctx\<rparr>,
       Summarize # snd (summarize (summarizerClient a) (Some t) (summarizer_reply w)) @
         [ConsoleError, ToastError e])"
  using assms by (simp add: pasm_eq try_eq)

lemma pasm_summarize_empty:
  assumes "\<not> isProcessing a" "\<not> too_short (Some t)"
    and "fst (summarize (summarizerClient a) (Some t) (summarizer_reply w)) = Inr []"
  shows "processAndStoreMessage w a (Some t) rl ctx =
      (a\<lparr>isProcessing := False, memoryStorage := history_storage w a ctx\<rparr>,
       Summarize # snd (summarize (summarizerClient a) (Some t) (summarizer_reply w)) @
         [ConsoleError, ToastError (Error ''Failed to generate summary'')])"
  using assms by (simp add: pasm_eq try_eq)

lemma pasm_embed_error:
  assumes "\<not> isProcessing a" "\<not> too_short (Some t)"
    and "fst (summarize (summarizerClient a) (Some t) (summarizer_reply w)) = Inr s" "s \<noteq> []"
    and "fst (embedDocument (voyageClient a) s (voyage_reply w)) = Inl e"
  shows "processAndStoreMessage w a (Some t) rl ctx =
      (a\<lparr>isProcessing := False, memoryStorage := history_storage w a ctx\<rparr>,
       Summarize # snd (summarize (summarizerClient a) (Some t) (summarizer_reply w)) @
       Embed # snd (embedDocument (voyageClient a) s (voyage_reply w)) @
         [ConsoleError, ToastError e])"
  using assms by (simp add: pasm_eq try_eq)

lemma pasm_embed_empty:
  assumes "\<not> isProcessing a" "\<not> too_short (Some t)"
    and "fst (summarize (summarizerClient a) (Some t) (summarizer_reply w)) = Inr s" "s \<noteq> []"
    and "fst (embedDocument (voyageClient a) s (voyage_reply w)) = Inr []"
  shows "processAndStoreMessage w a (Some t) rl ctx =
      (a\<lparr>isProcessing := False, memoryStorage := history_storage w a ctx\<rparr>,
       Summarize # snd (summarize (summarizerClient a) (Some t) (summarizer_reply w)) @
       Embed # snd (embedDocument (voyageClient a) s (voyage_reply w)) @
         [ConsoleError, ToastError (Error ''Failed to generate embedding'')])"
  using assms by (simp add: pasm_eq try_eq)

lemma pasm_store_error:
  assumes "\<not> isProcessing a" "\<not> too_short (Some t)"
    and "fst (summarize (summarizerClient a) (Some t) (summarizer_reply w)) = Inr s" "s \<noteq> []"
    and "fst (embedDocument (voyageClient a) s (voyage_reply w)) = Inr emb" "emb \<noteq> []"
    and "characterId ctx = None"
  shows "processAndStoreMessage w a (Some t) rl ctx =
      (a\<lparr>isProcessing := False, memoryStorage := history_storage w a ctx\<rparr>,
       Summarize # snd (summarize (summarizerClient a) (Some t) (summarizer_reply w)) @
       Embed # snd (embedDocument (voyageClient a) s (voyage_reply w)) @
         [Store, ConsoleError, ToastError TypeError])"
  using assms by (simp add: pasm_eq try_eq)

lemma pasm_success:
  assumes "\<not> isProcessing a" "\<not> too_short (Some t)"
    and "fst (summarize (summarizerClient a) (Some t) (summarizer_reply w)) = Inr s" "s \<noteq> []"
    and "fst (embedDocument (voyageClient a) s (voyage_reply w)) = Inr emb" "emb \<noteq> []"
    and "characterId ctx = Some cid"
  shows "processAndStoreMessage w a (Some t) rl ctx =
      (a\<lparr>isProcessing := False,
         memoryStorage := snd (addMemory (w_io w) (history_storage w a ctx) cid
                                   (createMemory t s (Some emb)
                                      \<lparr>opt_role = Some rl, opt_chatId = chatId ctx,
                                       opt_importance = None\<rparr>))\<rparr>,
       Summarize # snd (summarize (summarizerClient a) (Some t) (summarizer_reply w)) @
       Embed # snd (embedDocument (voyageClient a) s (voyage_reply w)) @
         [Store, ToastSuccess])"
  using assms by (simp add: pasm_eq try_eq)


lemma aborted_cleanly_history:
  "length (error_toasts evs) = 1 \<Longrightarrow> ToastSuccess \<notin> set evs \<Longrightarrow>
   aborted_cleanly (w_io w) a (a\<lparr>isProcessing := False, memoryStorage := history_storage w a ctx\<rparr>, evs)"
  using history_no_record [of w a ctx] by (simp add: aborted_cleanly_def)

text \<open>
  Claim C2. For a message that passes the guard of \<^verbatim>\<open>processAndStoreMessage\<close>, the stage
  calls are a prefix of summarize, embed, store, in that order. When the summarizer
  throws or returns an empty summary, only the summarize stage ran; when the embedding
  throws or is empty, only summarize and embed ran; in both cases, and when the store
  stage throws for want of a character id, no record was added to the store, exactly one
  error toast was shown and no success toast, and the in-flight flag is clear. When all
  stages succeed, one record with the message, its summary, its embedding and its role is
  appended, and no error is shown. The error is surfaced as the toast of the \<^verbatim>\<open>catch\<close>
  block; the call itself returns normally.
\<close>

theorem processAndStoreMessage_fail_fast:
  fixes w a t rl ctx
  defines "S \<equiv> summarize (summarizerClient a) (Some t) (summarizer_reply w)"
    and "E \<equiv> \<lambda>s. embedDocument (voyageClient a) s (voyage_reply w)"
    and "R \<equiv> processAndStoreMessage w a (Some t) rl ctx"
  assumes g: "\<not> isProcessing a" "\<not> too_short (Some t)"
  shows
    "(stage_calls (snd R) = [Summarize] \<or> stage_calls (snd R) = [Summarize, Embed] \<or>
      stage_calls (snd R) = [Summarize, Embed, Store]) \<and>
     ((\<exists>e. fst S = Inl e) \<or> fst S = Inr [] \<longrightarrow>
        stage_calls (snd R) = [Summarize] \<and> aborted_cleanly (w_io w) a R) \<and>
     (\<forall>s. fst S = Inr s \<and> s \<noteq> [] \<and> ((\<exists>e. fst (E s) = Inl e) \<or> fst (E s) = Inr []) \<longrightarrow>
        stage_calls (snd R) = [Summarize, Embed] \<and> aborted_cleanly (w_io w) a R) \<and>
     (\<forall>s emb. fst S = Inr s \<and> s \<noteq> [] \<and> fst (E s) = Inr emb \<and> emb \<noteq> [] \<and>
        characterId ctx = None \<longrightarrow>
        stage_calls (snd R) = [Summarize, Embed, Store] \<and> aborted_cleanly (w_io w) a R) \<and>
     (\<forall>s emb cid. fst S = Inr s \<and> s \<noteq> [] \<and> fst (E s) = Inr emb \<and> emb \<noteq> [] \<and>
        characterId ctx = Some cid \<longrightarrow>
        stage_calls (snd R) = [Summarize, Embed, Store] \<and> error_toasts (snd R) = [] \<and>
        \<not> isProcessing (fst R) \<and>
        fst (getMemories (w_io w) (memoryStorage (fst R)) cid) =
          fst (getMemories (w_io w) (memoryStorage a) cid) @
          [newMemory (w_io w) (createMemory t s (Some emb)
             \<lparr>opt_role = Some rl, opt_chatId = chatId ctx, opt_importance = None\<rparr>)])"
proof -
  have c2: "(\<exists>e. fst S = Inl e) \<or> fst S = Inr [] \<longrightarrow>
        stage_calls (snd R) = [Summarize] \<and> aborted_cleanly (w_io w) a R"
  proof
    assume "(\<exists>e. fst S = Inl e) \<or> fst S = Inr []"
    then show "stage_calls (snd R) = [Summarize] \<and> aborted_cleanly (w_io w) a R"
    proof
      assume "\<exists>e. fst S = Inl e"
      then obtain e where "fst S = Inl e" ..
      then show ?thesis
        unfolding R_def S_def by (simp add: pasm_summarize_error [OF g] aborted_cleanly_history)
    next
      assume "fst S = Inr []"
      then show ?thesis
        unfolding R_def S_def by (simp add: pasm_summarize_empty [OF g] aborted_cleanly_history)
    qed
  qed
  have c3: "\<forall>s. fst S = Inr s \<and> s \<noteq> [] \<and> ((\<exists>e. fst (E s) = Inl e) \<or> fst (E s) = Inr []) \<longrightarrow>
        stage_calls (snd R) = [Summarize, Embed] \<and> aborted_cleanly (w_io w) a R"
  proof (intro allI impI)
    fix s
    assume h: "fst S = Inr s \<and> s \<noteq> [] \<and> ((\<exists>e. fst (E s) = Inl e) \<or> fst (E s) = Inr [])"
    then have s: "fst S = Inr s" "s \<noteq> []" by simp_all
    from h have "(\<exists>e. fst (E s) = Inl e) \<or> fst (E s) = Inr []" by simp
    then show "stage_calls (snd R) = [Summarize, Embed] \<and> aborted_cleanly (w_io w) a R"
    proof
      assume "\<exists>e. fst (E s) = Inl e"
      then obtain e where "fst (E s) = Inl e" ..
      with s show ?thesis
        unfolding R_def S_def E_def by (simp add: pasm_embed_error [OF g] aborted_cleanly_history)
    next
      assume "fst (E s) = Inr []"
      with s show ?thesis
        unfolding R_def S_def E_def by (simp add: pasm_embed_empty [OF g] aborted_cleanly_history)
    qed
  qed
  have c4: "\<forall>s emb. fst S = Inr s \<and> s \<noteq> [] \<and> fst (E s) = Inr emb \<and> emb \<noteq> [] \<and>
        characterId ctx = None \<longrightarrow>
        stage_calls (snd R) = [Summarize, Embed, Store] \<and> aborted_cleanly (w_io w) a R"
    unfolding R_def S_def E_def
    by (intro allI impI) (simp add: pasm_store_error [OF g] aborted_cleanly_history)
  have c5: "\<forall>s emb cid. fst S = Inr s \<and> s \<noteq> [] \<and> fst (E s) = Inr emb \<and> emb \<noteq> [] \<and>
        characterId ctx = Some cid \<longrightarrow>
        stage_calls (snd R) = [Summarize, Embed, Store] \<and> error_toasts (snd R) = [] \<and>
        \<not> isProcessing (fst R) \<and>
        fst (getMemories (w_io w) (memoryStorage (fst R)) cid) =
          fst (getMemories (w_io w) (memoryStorage a) cid) @
          [newMemory (w_io w) (createMemory t s (Some emb)
             \<lparr>opt_role = Some rl, opt_chatId = chatId ctx, opt_importance = None\<rparr>)]"
    using history_no_record [of w a ctx]
    unfolding R_def S_def E_def
    by (intro allI impI) (simp add: pasm_success [OF g] addMemory_memories no_record_added_def)
  have c1: "stage_calls (snd R) = [Summarize] \<or> stage_calls (snd R) = [Summarize, Embed] \<or>
      stage_calls (snd R) = [Summarize, Embed, Store]"
  proof (cases "fst S")
    case (Inl e)
    with c2 show ?thesis by blast
  next
    case (Inr s)
    show ?thesis
    proof (cases "s = []")
      case True
      with Inr c2 show ?thesis by blast
    next
      case False
      show ?thesis
      proof (cases "fst (E s)")
        case (Inl e)
        with Inr False c3 show ?thesis by blast
      next
        case emb: (Inr emb)
        show ?thesis
        proof (cases "emb = []")
          case True
          with Inr False emb c3 show ?thesis by blast
        next
          case ne: False
          show ?thesis
          proof (cases "characterId ctx")
            case None
            with Inr False emb ne c4 show ?thesis by blast
          next
            case (Some cid)
            with Inr False emb ne c5 show ?thesis by blast
          qed
        qed
      qed
    qed
  qed
  show ?thesis by (intro conjI; fact c1 c2 c3 c4 c5)
qed



lemma example_message_long: "\<not> too_short (Some example_message)"
  by (simp add: too_short_def example_message_def js_string_of_def js_trim_def js_space_def)

theorem processAndStoreMessage_fail_fast_witness:
  "\<not> isProcessing (example_app False) \<and> \<not> too_short (Some example_message) \<and>
   stage_calls (snd (processAndStoreMessage (example_world (SHttpError 500 ''down'') VNoData)
      (example_app False) (Some example_message) ''user'' example_context)) = [Summarize] \<and>
   aborted_cleanly (example_io True) (example_app False)
     (processAndStoreMessage (example_world (SHttpError 500 ''down'') VNoData)
        (example_app False) (Some example_message) ''user'' example_context) \<and>
   stage_calls (snd (processAndStoreMessage
      (example_world (SCompletion (Some (js_string_of ''User revealed the truth about the letter to her.'')))
         (VData []))
      (example_app False) (Some example_message) ''user'' example_context)) = [Summarize, Embed] \<and>
   aborted_cleanly (example_io True) (example_app False)
     (processAndStoreMessage
        (example_world (SCompletion (Some (js_string_of ''User revealed the truth about the letter to her.'')))
           (VData []))
        (example_app False) (Some example_message) ''user'' example_context) \<and>
   fst (getMemories (example_io True) (memoryStorage (fst (processAndStoreMessage
      (example_world (SCompletion (Some (js_string_of ''User revealed the truth about the letter to her.'')))
         (VData [(0, [1 / 10, 1 / 5, 3 / 10])]))
      (example_app False) (Some example_message) ''user'' example_context))) ''c'') =
     [\<lparr>mem_id = ''00000000-0000-4000-8000-000000000000'', timestamp = ''t1'',
       original_message = example_message,
       summary = js_string_of ''User revealed the truth about the letter to her.'',
       embedding = Some [1 / 10, 1 / 5, 3 / 10],
       metadata = \<lparr>role = ''user'', chat_id = Some ''chat1'', importance = 1 / 2\<rparr>\<rparr>]"
proof -
  let ?sum = "js_string_of ''User revealed the truth about the letter to her.''"
  let ?w1 = "example_world (SHttpError 500 ''down'') VNoData"
  let ?w2 = "example_world (SCompletion (Some ?sum)) (VData [])"
  let ?w3 = "example_world (SCompletion (Some ?sum)) (VData [(0, [1 / 10, 1 / 5, 3 / 10])])"
  have g1: "\<not> isProcessing (example_app False)" by (simp add: example_app_def)
  note g2 = example_message_long
  have ne: "?sum \<noteq> []" by (simp add: js_string_of_def)
  have io: "\<And>sr vr. w_io (example_world sr vr) = example_io True"
    by (simp add: example_world_def)
  have s1: "fst (summarize (summarizerClient (example_app False)) (Some example_message)
                  (summarizer_reply ?w1)) = Inl (ApiError 500 ''down'')"
    by (simp add: summarize_def example_app_def example_world_def example_message_def
        js_string_of_def js_trim_def js_space_def)
  have s2: "fst (summarize (summarizerClient (example_app False)) (Some example_message)
                  (summarizer_reply ?w2)) = Inr ?sum"
    by (simp add: summarize_def example_app_def example_world_def example_message_def
        js_string_of_def js_trim_def js_space_def)
  have s3: "fst (summarize (summarizerClient (example_app False)) (Some example_message)
                  (summarizer_reply ?w3)) = Inr ?sum"
    by (simp add: summarize_def example_app_def example_world_def example_message_def
        js_string_of_def js_trim_def js_space_def)
  have e2: "fst (embedDocument (voyageClient (example_app False)) ?sum (voyage_reply ?w2)) = Inr []"
    by (simp add: embedDocument_def embed_def example_app_def example_world_def)
  have e3: "fst (embedDocument (voyageClient (example_app False)) ?sum (voyage_reply ?w3)) =
      Inr [1 / 10, 1 / 5, 3 / 10]"
    by (simp add: embedDocument_def embed_def example_app_def example_world_def)
  have c: "characterId example_context = Some ''c''" by (simp add: example_context_def)
  note T1 = processAndStoreMessage_fail_fast [OF g1 g2, where w = ?w1 and rl = "''user''"
      and ctx = example_context]
  note T2 = processAndStoreMessage_fail_fast [OF g1 g2, where w = ?w2 and rl = "''user''"
      and ctx = example_context]
  note T3 = processAndStoreMessage_fail_fast [OF g1 g2, where w = ?w3 and rl = "''user''"
      and ctx = example_context]
  have r1: "stage_calls (snd (processAndStoreMessage ?w1 (example_app False) (Some example_message)
                ''user'' example_context)) = [Summarize] \<and>
      aborted_cleanly (example_io True) (example_app False)
        (processAndStoreMessage ?w1 (example_app False) (Some example_message) ''user''
           example_context)"
    using T1 [THEN conjunct2, THEN conjunct1] s1 by (simp add: io)
  have r2: "stage_calls (snd (processAndStoreMessage ?w2 (example_app False) (Some example_message)
                ''user'' example_context)) = [Summarize, Embed] \<and>
      aborted_cleanly (example_io True) (example_app False)
        (processAndStoreMessage ?w2 (example_app False) (Some example_message) ''user''
           example_context)"
    using T2 [THEN conjunct2, THEN conjunct2, THEN conjunct1, rule_format, of ?sum] s2 e2 ne
    by (simp add: io)
  have "fst (getMemories (example_io True) (memoryStorage (fst (processAndStoreMessage ?w3
          (example_app False) (Some example_message) ''user'' example_context))) ''c'') =
      fst (getMemories (example_io True) (memoryStorage (example_app False)) ''c'') @
        [newMemory (example_io True) (createMemory example_message ?sum
           (Some [1 / 10, 1 / 5, 3 / 10])
           \<lparr>opt_role = Some ''user'', opt_chatId = chatId example_context, opt_importance = None\<rparr>)]"
    using T3 [THEN conjunct2, THEN conjunct2, THEN conjunct2, THEN conjunct2, rule_format,
        of ?sum "[1 / 10, 1 / 5, 3 / 10]" "''c''"] s3 e3 c ne
    by (simp add: io)
  then have r3: "fst (getMemories (example_io True) (memoryStorage (fst (processAndStoreMessage ?w3
          (example_app False) (Some example_message) ''user'' example_context))) ''c'') =
     [\<lparr>mem_id = ''00000000-0000-4000-8000-000000000000'', timestamp = ''t1'',
       original_message = example_message, summary = ?sum,
       embedding = Some [1 / 10, 1 / 5, 3 / 10],
       metadata = \<lparr>role = ''user'', chat_id = Some ''chat1'', importance = 1 / 2\<rparr>\<rparr>]"
    by (simp add: example_app_def example_context_def example_io_def example_storage_def
        getMemories_def loadMemories_def newMemory_def createMemory_def generateUUID_def
        hex_digit_def)
  from g1 g2 r1 r2 r3 show ?thesis by (intro conjI; simp)
qed


lemma requests_debug_log [simp]: "requests (debug_log a m) = []"
  by (simp add: requests_def debug_log_def)

lemma stage_calls_debug_log [simp]: "stage_calls (debug_log a m) = []"
  by (simp add: debug_log_def)

lemma pasm_dropped:
  "isProcessing a \<or> too_short messageText \<Longrightarrow>
   fst (processAndStoreMessage w a messageText rl ctx) = a \<and>
   stage_calls (snd (processAndStoreMessage w a messageText rl ctx)) = [] \<and>
   requests (snd (processAndStoreMessage w a messageText rl ctx)) = []"
  by (auto simp: processAndStoreMessage_def processAndStoreMessage_enter_def)

lemma short_text_too_short: "length t < 20 \<Longrightarrow> too_short (Some t)"
  using js_trim_length [of t] by (simp add: too_short_def)

lemma run_clears_flag: "\<not> isProcessing (fst (processAndStoreMessage_run w a t rl ctx))"
  by (simp add: processAndStoreMessage_run_def split: prod.splits sum.splits)

lemma storeCurrentChat_flag:
  "isProcessing (fst (storeCurrentChat ws a ctx confirmed)) = isProcessing a"
  by (simp add: storeCurrentChat_def Let_def split: option.splits prod.splits)

lemma uninterrupted:
  "globals (execute a [InvokeSingle w messageText rl ctx, CompleteSingle]) =
     fst (processAndStoreMessage w a messageText rl ctx) \<and>
   trace (execute a [InvokeSingle w messageText rl ctx, CompleteSingle]) =
     snd (processAndStoreMessage w a messageText rl ctx)"
  by (simp add: execute_def processAndStoreMessage_def processAndStoreMessage_enter_def
      split: prod.splits)

lemma step_dropped:
  "isProcessing (globals p) \<or> too_short messageText \<Longrightarrow>
   globals (step p (InvokeSingle w messageText rl ctx)) = globals p \<and>
   singles (step p (InvokeSingle w messageText rl ctx)) = singles p \<and>
   batches (step p (InvokeSingle w messageText rl ctx)) = batches p \<and>
   stage_calls (trace (step p (InvokeSingle w messageText rl ctx))) = stage_calls (trace p)"
  by (auto simp: processAndStoreMessage_enter_def)

lemma step_CompleteSingle:
  "singles p = c # cs \<Longrightarrow>
   step p CompleteSingle =
     p\<lparr>globals := fst (processAndStoreMessage_run (call_world c) (globals p) (call_text c)
                         (call_role c) (call_context c)),
       singles := cs,
       trace := trace p @ snd (processAndStoreMessage_run (call_world c) (globals p) (call_text c)
                                 (call_role c) (call_context c))\<rparr>"
  by (simp split: prod.splits)

lemma step_CompleteBatch:
  "batches p = b # bs \<Longrightarrow>
   step p CompleteBatch =
     p\<lparr>globals := fst (storeCurrentChat (batch_worlds b) (globals p) (batch_context b)
                         (batch_confirmed b)),
       batches := bs,
       trace := trace p @ snd (storeCurrentChat (batch_worlds b) (globals p) (batch_context b)
                                 (batch_confirmed b))\<rparr>"
  by (simp split: prod.splits)

lemma single_flight_step: "single_flight p \<Longrightarrow> single_flight (step p act)"
proof (cases act)
  case (InvokeSingle w messageText rl ctx)
  assume "single_flight p"
  then show ?thesis
    unfolding InvokeSingle
    by (cases "singles p") (auto simp: single_flight_def processAndStoreMessage_enter_def)
next
  case CompleteSingle
  assume sf: "single_flight p"
  show ?thesis
  proof (cases "singles p")
    case Nil
    with sf show ?thesis unfolding CompleteSingle by simp
  next
    case (Cons c cs)
    with sf have "cs = []" by (simp add: single_flight_def)
    with Cons show ?thesis
      unfolding CompleteSingle step_CompleteSingle [OF Cons]
      by (simp add: single_flight_def run_clears_flag)
  qed
next
  case (InvokeBatch ws ctx confirmed)
  assume "single_flight p"
  then show ?thesis unfolding InvokeBatch by (simp add: single_flight_def)
next
  case CompleteBatch
  assume sf: "single_flight p"
  show ?thesis
  proof (cases "batches p")
    case Nil
    with sf show ?thesis unfolding CompleteBatch by simp
  next
    case (Cons b bs)
    from sf show ?thesis
      unfolding CompleteBatch step_CompleteBatch [OF Cons]
      by (simp add: single_flight_def storeCurrentChat_flag)
  qed
qed

lemma single_flight_foldl: "single_flight p \<Longrightarrow> single_flight (foldl step p acts)"
  by (induction acts arbitrary: p) (simp_all add: single_flight_step)

lemma single_flight_execute: "\<not> isProcessing a \<Longrightarrow> single_flight (execute a acts)"
  unfolding execute_def by (rule single_flight_foldl) (simp add: single_flight_def)


text \<open>
  Claim C9, as amended. When \<^verbatim>\<open>processAndStoreMessage\<close> is invoked while the in-flight flag
  is set, or with a text that is missing or whose trimmed length is below 20 (so with every
  text of fewer than 20 code units), the call is dropped: the state is unchanged, and no
  stage call and no HTTP request is made. An invocation that nothing interrupts is the
  function \<^const>\<open>processAndStoreMessage\<close>. Over every sequence of invocations and
  completions that starts with the flag clear, at most one execution of
  \<^verbatim>\<open>processAndStoreMessage\<close> is in progress, the flag is set exactly while one is, and an
  invocation that arrives meanwhile is dropped. Nothing is said about \<^verbatim>\<open>storeCurrentChat\<close>,
  which neither reads nor sets the flag.
\<close>

theorem single_flight_guard:
  "(isProcessing a \<or> too_short messageText \<longrightarrow>
      fst (processAndStoreMessage w a messageText rl ctx) = a \<and>
      stage_calls (snd (processAndStoreMessage w a messageText rl ctx)) = [] \<and>
      requests (snd (processAndStoreMessage w a messageText rl ctx)) = []) \<and>
   (length t < 20 \<longrightarrow> too_short (Some t)) \<and>
   globals (execute a [InvokeSingle w messageText rl ctx, CompleteSingle]) =
     fst (processAndStoreMessage w a messageText rl ctx) \<and>
   trace (execute a [InvokeSingle w messageText rl ctx, CompleteSingle]) =
     snd (processAndStoreMessage w a messageText rl ctx) \<and>
   (\<not> isProcessing a \<longrightarrow>
      length (singles (execute a acts)) \<le> 1 \<and>
      (isProcessing (globals (execute a acts)) \<longleftrightarrow> length (singles (execute a acts)) = 1)) \<and>
   (\<not> isProcessing a \<and> singles (execute a acts) \<noteq> [] \<longrightarrow>
      globals (step (execute a acts) (InvokeSingle w messageText rl ctx)) =
        globals (execute a acts) \<and>
      singles (step (execute a acts) (InvokeSingle w messageText rl ctx)) =
        singles (execute a acts) \<and>
      stage_calls (trace (step (execute a acts) (InvokeSingle w messageText rl ctx))) =
        stage_calls (trace (execute a acts)))"
proof -
  have 1: "isProcessing a \<or> too_short messageText \<longrightarrow>
      fst (processAndStoreMessage w a messageText rl ctx) = a \<and>
      stage_calls (snd (processAndStoreMessage w a messageText rl ctx)) = [] \<and>
      requests (snd (processAndStoreMessage w a messageText rl ctx)) = []"
    using pasm_dropped [of a messageText w rl ctx] by blast
  have 2: "length t < 20 \<longrightarrow> too_short (Some t)"
    by (simp add: short_text_too_short)
  have 3: "globals (execute a [InvokeSingle w messageText rl ctx, CompleteSingle]) =
     fst (processAndStoreMessage w a messageText rl ctx)"
    and 4: "trace (execute a [InvokeSingle w messageText rl ctx, CompleteSingle]) =
     snd (processAndStoreMessage w a messageText rl ctx)"
    using uninterrupted [of a w messageText rl ctx] by simp_all
  have 5: "\<not> isProcessing a \<longrightarrow>
      length (singles (execute a acts)) \<le> 1 \<and>
      (isProcessing (globals (execute a acts)) \<longleftrightarrow> length (singles (execute a acts)) = 1)"
    using single_flight_execute [of a acts] by (simp add: single_flight_def)
  have 6: "\<not> isProcessing a \<and> singles (execute a acts) \<noteq> [] \<longrightarrow>
      globals (step (execute a acts) (InvokeSingle w messageText rl ctx)) =
        globals (execute a acts) \<and>
      singles (step (execute a acts) (InvokeSingle w messageText rl ctx)) =
        singles (execute a acts) \<and>
      stage_calls (trace (step (execute a acts) (InvokeSingle w messageText rl ctx))) =
        stage_calls (trace (execute a acts))"
  proof
    assume h: "\<not> isProcessing a \<and> singles (execute a acts) \<noteq> []"
    then have "single_flight (execute a acts)" by (simp add: single_flight_execute)
    with h have "isProcessing (globals (execute a acts))"
      by (cases "singles (execute a acts)") (auto simp: single_flight_def)
    then show "globals (step (execute a acts) (InvokeSingle w messageText rl ctx)) =
        globals (execute a acts) \<and>
      singles (step (execute a acts) (InvokeSingle w messageText rl ctx)) =
        singles (execute a acts) \<and>
      stage_calls (trace (step (execute a acts) (InvokeSingle w messageText rl ctx))) =
        stage_calls (trace (execute a acts))"
      using step_dropped [of "execute a acts" messageText w rl ctx] by blast
  qed
  show ?thesis by (intro conjI; fact 1 2 3 4 5 6)
qed

lemma example_enter:
  "\<not> isProcessing a \<Longrightarrow>
   processAndStoreMessage_enter a (Some example_message) = (True, a\<lparr>isProcessing := True\<rparr>, [])"
  using example_message_long by (simp add: processAndStoreMessage_enter_def)

theorem single_flight_guard_witness:
  "isProcessing (example_app True) \<and>
   fst (processAndStoreMessage
          (example_world (SCompletion (Some (js_string_of ''summary''))) (VData [(0, [1])]))
          (example_app True) (Some example_message) ''user'' example_context) = example_app True \<and>
   stage_calls (snd (processAndStoreMessage
          (example_world (SCompletion (Some (js_string_of ''summary''))) (VData [(0, [1])]))
          (example_app True) (Some example_message) ''user'' example_context)) = [] \<and>
   length (js_string_of ''too short'') < 20 \<and> too_short (Some (js_string_of ''too short'')) \<and>
   fst (processAndStoreMessage
          (example_world (SCompletion (Some (js_string_of ''summary''))) (VData [(0, [1])]))
          (example_app False) (Some (js_string_of ''too short'')) ''user'' example_context) =
     example_app False \<and>
   too_short (Some (replicate 25 0xA0)) \<and>
   fst (processAndStoreMessage
          (example_world (SCompletion (Some (js_string_of ''summary''))) (VData [(0, [1])]))
          (example_app False) (Some (replicate 25 0xA0)) ''user'' example_context) =
     example_app False \<and>
   \<not> isProcessing (example_app False) \<and>
   length (singles (execute (example_app False)
      [InvokeSingle (example_world (SCompletion (Some (js_string_of ''summary''))) (VData [(0, [1])]))
         (Some example_message) ''user'' example_context,
       InvokeSingle (example_world (SCompletion (Some (js_string_of ''summary''))) (VData [(0, [1])]))
         (Some example_message) ''user'' example_context])) = 1"
proof -
  let ?w = "example_world (SCompletion (Some (js_string_of ''summary''))) (VData [(0, [1])])"
  let ?acts = "[InvokeSingle ?w (Some example_message) ''user'' example_context,
                InvokeSingle ?w (Some example_message) ''user'' example_context]"
  have b: "isProcessing (example_app True)" by (simp add: example_app_def)
  have nb: "\<not> isProcessing (example_app False)" by (simp add: example_app_def)
  have l: "length (js_string_of ''too short'') < 20" by (simp add: js_string_of_def)
  note T1 = single_flight_guard [of "example_app True" "Some example_message" ?w "''user''"
      example_context "js_string_of ''too short''" "[]"]
  have ts: "too_short (Some (js_string_of ''too short''))"
    using T1 [THEN conjunct2, THEN conjunct1] l by simp
  note T2 = single_flight_guard [of "example_app False" "Some (js_string_of ''too short'')" ?w
      "''user''" example_context "js_string_of ''too short''" ?acts]
  from T1 [THEN conjunct1] b
  have r1: "fst (processAndStoreMessage ?w (example_app True) (Some example_message) ''user''
                   example_context) = example_app True \<and>
      stage_calls (snd (processAndStoreMessage ?w (example_app True) (Some example_message) ''user''
                   example_context)) = []"
    by simp
  from T2 [THEN conjunct1] ts
  have r2: "fst (processAndStoreMessage ?w (example_app False) (Some (js_string_of ''too short''))
                   ''user'' example_context) = example_app False"
    by simp
  have nbsp: "too_short (Some (replicate 25 0xA0))"
    by (simp add: too_short_def js_trim_def js_space_def)
  note T3 = single_flight_guard [of "example_app False" "Some (replicate 25 0xA0)" ?w
      "''user''" example_context "[]" "[]"]
  from T3 [THEN conjunct1] nbsp
  have r4: "fst (processAndStoreMessage ?w (example_app False) (Some (replicate 25 0xA0))
                   ''user'' example_context) = example_app False"
    by simp
  have p: "isProcessing (globals (execute (example_app False) ?acts))"
    using nb example_message_long
    by (simp add: execute_def example_enter processAndStoreMessage_enter_def)
  from T2 [THEN conjunct2, THEN conjunct2, THEN conjunct2, THEN conjunct2, THEN conjunct1] nb p
  have r3: "length (singles (execute (example_app False) ?acts)) = 1"
    by simp
  from b l ts r1 r2 nbsp r4 nb r3 show ?thesis by (intro conjI; simp)
qed

lemma storeCurrentChat_example:
  assumes "summarizerClient a = \<lparr>apiUrl = ''https://api.example/v1'', apiKey = ''key''\<rparr>"
    and "voyageClient a = \<lparr>voyage_apiKey = ''key''\<rparr>"
  shows "storeCurrentChat
      (\<lambda>i. example_world (SCompletion (Some (js_string_of ''summary''))) (VData [(0, [1])])) a
      (example_context\<lparr>chat := [\<lparr>mes = Some example_message, is_user = True, is_system = False\<rparr>]\<rparr>)
      True =
     (a\<lparr>memoryStorage :=
         snd (addMemory (example_io True) (memoryStorage a) ''c''
                (createMemory example_message (js_string_of ''summary'') (Some [1])
                   \<lparr>opt_role = Some ''user'', opt_chatId = Some ''chat1'', opt_importance = None\<rparr>))\<rparr>,
      [Summarize, SummarizerRequest, Embed, EmbeddingRequest, Store, BatchReport 1 0])"
proof -
  have s: "summarize (summarizerClient a) (Some example_message)
             (SCompletion (Some (js_string_of ''summary''))) =
           (Inr (js_string_of ''summary''), [SummarizerRequest])"
    by (simp add: assms summarize_def example_message_def js_string_of_def js_trim_def js_space_def)
  have e: "embedDocument (voyageClient a) (js_string_of ''summary'') (VData [(0, [1])]) =
      (Inr [1], [EmbeddingRequest])"
    by (simp add: assms embedDocument_def embed_def)
  have len: "20 \<le> length example_message" "example_message \<noteq> []"
    by (simp_all add: example_message_def js_string_of_def)
  show ?thesis
    using len by (simp add: storeCurrentChat_def store_chat_item_def s e example_context_def
        example_world_def)
qed

text \<open>
  The claim as first stated fails for the batch path. After a \<^verbatim>\<open>processAndStoreMessage\<close>
  has gone past its guard, a \<^verbatim>\<open>storeCurrentChat\<close> starts as well, so two write-path
  executions are in progress; and the \<^verbatim>\<open>storeCurrentChat\<close> is not dropped although the flag
  is set: it summarizes, embeds and stores a record while the first execution is still in
  progress.
\<close>

theorem single_flight_counterexample:
  "\<not> isProcessing (example_app False) \<and>
   length (singles (execute (example_app False)
     [InvokeSingle (example_world (SCompletion (Some (js_string_of ''summary''))) (VData [(0, [1])]))
        (Some example_message) ''user'' example_context,
      InvokeBatch (\<lambda>i. example_world (SCompletion (Some (js_string_of ''summary''))) (VData [(0, [1])]))
        (example_context\<lparr>chat := [\<lparr>mes = Some example_message, is_user = True, is_system = False\<rparr>]\<rparr>)
        True])) = 1 \<and>
   length (batches (execute (example_app False)
     [InvokeSingle (example_world (SCompletion (Some (js_string_of ''summary''))) (VData [(0, [1])]))
        (Some example_message) ''user'' example_context,
      InvokeBatch (\<lambda>i. example_world (SCompletion (Some (js_string_of ''summary''))) (VData [(0, [1])]))
        (example_context\<lparr>chat := [\<lparr>mes = Some example_message, is_user = True, is_system = False\<rparr>]\<rparr>)
        True])) = 1 \<and>
   isProcessing (globals (execute (example_app False)
     [InvokeSingle (example_world (SCompletion (Some (js_string_of ''summary''))) (VData [(0, [1])]))
        (Some example_message) ''user'' example_context,
      InvokeBatch (\<lambda>i. example_world (SCompletion (Some (js_string_of ''summary''))) (VData [(0, [1])]))
        (example_context\<lparr>chat := [\<lparr>mes = Some example_message, is_user = True, is_system = False\<rparr>]\<rparr>)
        True])) \<and>
   stage_calls (trace (execute (example_app False)
     [InvokeSingle (example_world (SCompletion (Some (js_string_of ''summary''))) (VData [(0, [1])]))
        (Some example_message) ''user'' example_context,
      InvokeBatch (\<lambda>i. example_world (SCompletion (Some (js_string_of ''summary''))) (VData [(0, [1])]))
        (example_context\<lparr>chat := [\<lparr>mes = Some example_message, is_user = True, is_system = False\<rparr>]\<rparr>)
        True,
      CompleteBatch])) = [Summarize, Embed, Store] \<and>
   length (fst (getMemories (example_io True) (memoryStorage (example_app False)) ''c'')) = 0 \<and>
   length (fst (getMemories (example_io True) (memoryStorage (globals (execute (example_app False)
     [InvokeSingle (example_world (SCompletion (Some (js_string_of ''summary''))) (VData [(0, [1])]))
        (Some example_message) ''user'' example_context,
      InvokeBatch (\<lambda>i. example_world (SCompletion (Some (js_string_of ''summary''))) (VData [(0, [1])]))
        (example_context\<lparr>chat := [\<lparr>mes = Some example_message, is_user = True, is_system = False\<rparr>]\<rparr>)
        True,
      CompleteBatch]))) ''c'')) = 1 \<and>
   length (singles (execute (example_app False)
     [InvokeSingle (example_world (SCompletion (Some (js_string_of ''summary''))) (VData [(0, [1])]))
        (Some example_message) ''user'' example_context,
      InvokeBatch (\<lambda>i. example_world (SCompletion (Some (js_string_of ''summary''))) (VData [(0, [1])]))
        (example_context\<lparr>chat := [\<lparr>mes = Some example_message, is_user = True, is_system = False\<rparr>]\<rparr>)
        True,
      CompleteBatch])) = 1"
proof -
  let ?w = "example_world (SCompletion (Some (js_string_of ''summary''))) (VData [(0, [1])])"
  let ?ctx = "example_context\<lparr>chat := [\<lparr>mes = Some example_message, is_user = True,
                                          is_system = False\<rparr>]\<rparr>"
  let ?a1 = "(example_app False)\<lparr>isProcessing := True\<rparr>"
  let ?c = "\<lparr>call_world = ?w, call_text = example_message, call_role = ''user'',
            call_context = example_context\<rparr>"
  let ?b = "\<lparr>batch_worlds = \<lambda>i. ?w, batch_context = ?ctx, batch_confirmed = True\<rparr>"
  have nb: "\<not> isProcessing (example_app False)" by (simp add: example_app_def)
  have p2: "execute (example_app False)
      [InvokeSingle ?w (Some example_message) ''user'' example_context, InvokeBatch (\<lambda>i. ?w) ?ctx True] =
      \<lparr>globals = ?a1, singles = [?c], batches = [?b], trace = []\<rparr>"
    by (simp add: execute_def example_enter [OF nb])
  have cl: "summarizerClient ?a1 = \<lparr>apiUrl = ''https://api.example/v1'', apiKey = ''key''\<rparr>"
      "voyageClient ?a1 = \<lparr>voyage_apiKey = ''key''\<rparr>"
    by (simp_all add: example_app_def)
  have p3: "execute (example_app False)
      [InvokeSingle ?w (Some example_message) ''user'' example_context, InvokeBatch (\<lambda>i. ?w) ?ctx True,
       CompleteBatch] =
      \<lparr>globals = ?a1\<lparr>memoryStorage :=
           snd (addMemory (example_io True) (memoryStorage ?a1) ''c''
                (createMemory example_message (js_string_of ''summary'') (Some [1])
                   \<lparr>opt_role = Some ''user'', opt_chatId = Some ''chat1'', opt_importance = None\<rparr>))\<rparr>,
       singles = [?c], batches = [],
       trace = [Summarize, SummarizerRequest, Embed, EmbeddingRequest, Store, BatchReport 1 0]\<rparr>"
    by (simp add: execute_def example_enter [OF nb] storeCurrentChat_example [OF cl])
  have 4: "length (fst (getMemories (example_io True) (memoryStorage (example_app False)) ''c'')) = 0"
    by (simp add: getMemories_def loadMemories_def example_app_def example_storage_def)
  have 5: "length (fst (getMemories (example_io True) (memoryStorage (globals (execute (example_app False)
      [InvokeSingle ?w (Some example_message) ''user'' example_context, InvokeBatch (\<lambda>i. ?w) ?ctx True,
       CompleteBatch]))) ''c'')) = 1"
    unfolding p3 using 4 by (simp add: addMemory_memories)
  show ?thesis
    unfolding p2 using nb 4 5 unfolding p3 by simp
qed

end
